theory Spec2Isabelle
  imports Complex_Main
begin

section \<open>Data model\<close>

text \<open>
  The documents of the \<^verbatim>\<open>events\<close> collection, as the interfaces of
  \<^verbatim>\<open>src/app/api/events/users/route.ts\<close> (EventResponse, NewEventResponse,
  EventDocument) and of \<^verbatim>\<open>src/components/EventViewPage.tsx\<close> (AvailabilitySlot,
  EventData) declare them. A field that is \<^verbatim>\<open>undefined\<close> or \<^verbatim>\<open>null\<close> in
  JavaScript is \<open>None\<close>. Strings are ASCII strings.
\<close>

record AvailabilitySlot =
  date :: string
  time :: string
  available :: bool
  timestamp :: string

record EventResponse =
  name :: string
  password :: "string option"
  email :: string
  availability :: "AvailabilitySlot list"
  createdAt :: "string option"

text \<open>A calendar date as \<^verbatim>\<open>getFullYear()\<close>, \<^verbatim>\<open>getMonth() + 1\<close> and
  \<^verbatim>\<open>getDate()\<close> read it from a JavaScript \<^verbatim>\<open>Date\<close>.\<close>

record CalDate =
  year :: int
  month :: int
  day :: int

record Timezone =
  tzValue :: string
  tzLabel :: string

record EventData =
  evId :: string
  evName :: string
  selectedDates :: "CalDate list"
  requireEmail :: bool
  hideResponses :: bool
  startTime :: string
  endTime :: string
  timezone :: Timezone
  timeSlots :: "string list"
  responses :: "EventResponse list"
  responseLimit :: "int option"

text \<open>The payload of a session token, \<^verbatim>\<open>{ userName, eventId }\<close>.\<close>

record JwtPayload =
  jwtUserName :: string
  jwtEventId :: string

datatype Json =
    ErrorJson string
  | SignInJson string string
  | UserJson string
  | EventJson EventData

record Reply =
  status :: nat
  json :: Json
  cookie :: "(string \<times> string) option"

definition reply :: "nat \<Rightarrow> Json \<Rightarrow> Reply" where
  "reply s j = \<lparr>status = s, json = j, cookie = None\<rparr>"

subsection \<open>JavaScript truthiness and strings\<close>

definition truthyNum :: "int option \<Rightarrow> bool" where
  "truthyNum n = (case n of None \<Rightarrow> False | Some k \<Rightarrow> k \<noteq> 0)"

definition truthyStr :: "string option \<Rightarrow> bool" where
  "truthyStr s = (case s of None \<Rightarrow> False | Some t \<Rightarrow> t \<noteq> [])"

definition lowerChar :: "char \<Rightarrow> char" where
  "lowerChar c =
     (case map_of (zip ''ABCDEFGHIJKLMNOPQRSTUVWXYZ'' ''abcdefghijklmnopqrstuvwxyz'') c of
        Some l \<Rightarrow> l
      | None \<Rightarrow> c)"

definition toLowerCase :: "string \<Rightarrow> string" where
  "toLowerCase s = map lowerChar s"

text \<open>\<^verbatim>\<open>toString()\<close> of an integer: its decimal digits.\<close>

fun natDigits :: "nat \<Rightarrow> string" where
  "natDigits n =
     (if n < 10 then [''0123456789'' ! n]
      else natDigits (n div 10) @ [''0123456789'' ! (n mod 10)])"

declare natDigits.simps [simp del]

definition numToString :: "int \<Rightarrow> string" where
  "numToString i = (if i < 0 then CHR ''-'' # natDigits (nat (- i)) else natDigits (nat i))"

definition pad2 :: "int \<Rightarrow> string" where
  "pad2 i = (if i < 10 then CHR ''0'' # numToString i else numToString i)"

subsection \<open>The collection\<close>

definition findOne :: "string \<Rightarrow> EventData list \<Rightarrow> EventData option" where
  "findOne i events = find (\<lambda>e. evId e = i) events"

text \<open>\<^verbatim>\<open>updateOne\<close> and \<^verbatim>\<open>findOneAndUpdate\<close> change the first document with the id.\<close>

fun updateOne :: "string \<Rightarrow> (EventData \<Rightarrow> EventData) \<Rightarrow> EventData list \<Rightarrow> EventData list" where
  "updateOne i f [] = []"
| "updateOne i f (e # es) = (if evId e = i then f e # es else e # updateOne i f es)"

section \<open>Sign-in: POST /api/events/users\<close>

text \<open>
  \<^verbatim>\<open>POST\<close> of \<^verbatim>\<open>src/app/api/events/users/route.ts\<close>, lines 73 to 230. The
  arguments are the \<^verbatim>\<open>sign\<close> function of the token library, the clock, the
  collection and the fields of the request body; the result is the reply and the
  collection afterwards.
\<close>

definition signedIn :: "(JwtPayload \<Rightarrow> string) \<Rightarrow> string \<Rightarrow> string \<Rightarrow> Reply" where
  "signedIn sign eventId userName =
     \<lparr>status = 200,
      json = SignInJson userName ''Successfully signed in'',
      cookie = Some (''auth_token_'' @ eventId,
                     sign \<lparr>jwtUserName = userName, jwtEventId = eventId\<rparr>)\<rparr>"

definition newResponse :: "string \<Rightarrow> EventData \<Rightarrow> string \<Rightarrow> string option \<Rightarrow> EventResponse" where
  "newResponse now event userName pw =
     \<lparr>name = userName,
      password = (if truthyNum (responseLimit event) then pw
                  else if truthyStr pw then pw else None),
      email = [],
      availability = [],
      createdAt = Some now\<rparr>"

definition POST_users ::
  "(JwtPayload \<Rightarrow> string) \<Rightarrow> string \<Rightarrow> EventData list \<Rightarrow>
   string \<Rightarrow> string \<Rightarrow> string option \<Rightarrow> bool \<Rightarrow> Reply \<times> EventData list" where
  "POST_users sign now events eventId userName pw isResponseLimited =
     (if eventId = [] \<or> userName = [] then
        (reply 400 (ErrorJson ''Event ID and username are required''), events)
      else case findOne eventId events of
        None \<Rightarrow> (reply 404 (ErrorJson ''Event not found''), events)
      | Some event \<Rightarrow>
          if truthyNum (responseLimit event) \<and> \<not> truthyStr pw then
            (reply 400 (ErrorJson ''Password is required for response-limited events''), events)
          else
            case find (\<lambda>r. toLowerCase (name r) = toLowerCase userName) (responses event) of
              Some existingResponse \<Rightarrow>
                if truthyNum (responseLimit event) \<and> \<not> truthyStr pw then
                  (reply 401 (ErrorJson ''Password required for this response-limited event''),
                   events)
                else if truthyNum (responseLimit event) \<and> password existingResponse \<noteq> pw then
                  (reply 401 (ErrorJson ''Incorrect password''), events)
                else (signedIn sign eventId userName, events)
            | None \<Rightarrow>
                if truthyNum (responseLimit event) \<and> \<not> truthyStr pw then
                  (reply 400 (ErrorJson ''Password is required for response-limited events''),
                   events)
                else
                  (signedIn sign eventId userName,
                   updateOne eventId
                     (\<lambda>e. e\<lparr>responses := responses e @ [newResponse now event userName pw]\<rparr>)
                     events))"

text \<open>
  The client's gate before the request, \<^verbatim>\<open>isResponseLimitReached\<close> (lines 962 to 965)
  and \<^verbatim>\<open>onSignIn\<close> (lines 1570 to 1577) of \<^verbatim>\<open>EventViewPage.tsx\<close>:
  \<open>onSignInLocked\<close> holds when the dialog refuses the name without sending a request.
\<close>

definition isResponseLimitReached :: "EventData \<Rightarrow> bool" where
  "isResponseLimitReached eventData =
     (case responseLimit eventData of
        None \<Rightarrow> False
      | Some l \<Rightarrow> if l = 0 then False else int (length (responses eventData)) \<ge> l)"

definition onSignInLocked :: "EventData \<Rightarrow> string \<Rightarrow> bool" where
  "onSignInLocked eventData userName =
     (let isNewUser = \<not> list_ex (\<lambda>r. name r = userName) (responses eventData)
      in isResponseLimitReached eventData \<and> isNewUser)"

text \<open>A token library for the examples: the token is the user name, a bar and the event id.\<close>

definition demoSign :: "JwtPayload \<Rightarrow> string" where
  "demoSign p = jwtUserName p @ ''|'' @ jwtEventId p"

definition samResponse :: EventResponse where
  "samResponse = \<lparr>name = ''Sam'', password = Some ''x'', email = [], availability = [],
     createdAt = Some ''t0''\<rparr>"

definition limitedEvent :: EventData where
  "limitedEvent =
     \<lparr>evId = ''e1'', evName = ''Standup'',
      selectedDates = [\<lparr>year = 1970, month = 1, day = 1\<rparr>],
      requireEmail = False, hideResponses = False,
      startTime = ''9:00 AM'', endTime = ''5:00 PM'',
      timezone = \<lparr>tzValue = ''UTC'', tzLabel = ''Universal Time (UTC)''\<rparr>,
      timeSlots = [''9:00 AM'', ''5:00 PM''],
      responses = [samResponse],
      responseLimit = Some 1\<rparr>"

section \<open>Saving: PUT /api/events and the session check\<close>

text \<open>
  The body of a \<^verbatim>\<open>PUT\<close> request is any JSON object: a field it does not carry is
  \<open>None\<close> here. \<^verbatim>\<open>responseLimit\<close> can be absent (\<open>None\<close>), \<^verbatim>\<open>null\<close>
  (\<open>Some None\<close>) or a number.
\<close>

record EventPatch =
  pId :: string
  pName :: "string option"
  pSelectedDates :: "CalDate list option"
  pRequireEmail :: "bool option"
  pHideResponses :: "bool option"
  pStartTime :: "string option"
  pEndTime :: "string option"
  pTimezone :: "Timezone option"
  pTimeSlots :: "string list option"
  pResponses :: "EventResponse list option"
  pResponseLimit :: "int option option"

text \<open>The update \<^verbatim>\<open>{ $set: eventData }\<close>: every field of the body is written, the
  others stay.\<close>

definition setFields :: "EventPatch \<Rightarrow> EventData \<Rightarrow> EventData" where
  "setFields b e =
     \<lparr>evId = pId b,
      evName = (case pName b of None \<Rightarrow> evName e | Some v \<Rightarrow> v),
      selectedDates = (case pSelectedDates b of None \<Rightarrow> selectedDates e | Some v \<Rightarrow> v),
      requireEmail = (case pRequireEmail b of None \<Rightarrow> requireEmail e | Some v \<Rightarrow> v),
      hideResponses = (case pHideResponses b of None \<Rightarrow> hideResponses e | Some v \<Rightarrow> v),
      startTime = (case pStartTime b of None \<Rightarrow> startTime e | Some v \<Rightarrow> v),
      endTime = (case pEndTime b of None \<Rightarrow> endTime e | Some v \<Rightarrow> v),
      timezone = (case pTimezone b of None \<Rightarrow> timezone e | Some v \<Rightarrow> v),
      timeSlots = (case pTimeSlots b of None \<Rightarrow> timeSlots e | Some v \<Rightarrow> v),
      responses = (case pResponses b of None \<Rightarrow> responses e | Some v \<Rightarrow> v),
      responseLimit = (case pResponseLimit b of None \<Rightarrow> responseLimit e | Some v \<Rightarrow> v)\<rparr>"

text \<open>
  \<^verbatim>\<open>PUT\<close> of the events route, lines 171 to 210 of
  \<^verbatim>\<open>src/app/api/events/users/signout/route.ts\<close>. \<open>verify\<close> is the
  token library's \<^verbatim>\<open>verify(token, JWT_SECRET)\<close>: \<open>Inr\<close> the payload, or \<open>Inl\<close> the
  message of the error it throws (malformed, wrong signature, expired). The thrown error
  reaches the handler's only \<^verbatim>\<open>catch\<close>.
\<close>

definition PUT_events ::
  "(string \<Rightarrow> string + JwtPayload) \<Rightarrow> (string \<times> string) list \<Rightarrow> EventData list \<Rightarrow>
   EventPatch \<Rightarrow> Reply \<times> EventData list" where
  "PUT_events verify cookies events body =
     (case map_of cookies (''auth_token_'' @ pId body) of
        None \<Rightarrow> (reply 401 (ErrorJson ''Not authenticated''), events)
      | Some authToken \<Rightarrow>
          if authToken = [] then (reply 401 (ErrorJson ''Not authenticated''), events)
          else case verify authToken of
            Inl msg \<Rightarrow> (reply 500 (ErrorJson (''Failed to update event: '' @ msg)), events)
          | Inr decoded \<Rightarrow>
              (case findOne (pId body) events of
                 None \<Rightarrow> (reply 404 (ErrorJson ''Event not found''), events)
               | Some e \<Rightarrow>
                   (reply 200 (EventJson (setFields body e)),
                    updateOne (pId body) (setFields body) events)))"

text \<open>\<^verbatim>\<open>GET\<close> of \<^verbatim>\<open>src/app/api/events/users/route.ts\<close>, lines 32 to 71.\<close>

definition GET_users ::
  "(string \<Rightarrow> string + JwtPayload) \<Rightarrow> (string \<times> string) list \<Rightarrow> string \<Rightarrow> Reply" where
  "GET_users verify cookies eventId =
     (if eventId = [] then reply 400 (ErrorJson ''Event ID is required'')
      else case map_of cookies (''auth_token_'' @ eventId) of
        None \<Rightarrow> reply 401 (ErrorJson ''Not authenticated'')
      | Some authToken \<Rightarrow>
          if authToken = [] then reply 401 (ErrorJson ''Not authenticated'')
          else case verify authToken of
            Inl msg \<Rightarrow> reply 401 (ErrorJson ''Invalid token'')
          | Inr decoded \<Rightarrow> reply 200 (UserJson (jwtUserName decoded)))"

text \<open>
  The body the page sends on autosave, lines 161 to 194 (and again 833 to 866) of
  \<^verbatim>\<open>EventViewPage.tsx\<close>. \<^verbatim>\<open>TimeSlotState\<close> is an object of objects, here the
  list of its entries.
\<close>

type_synonym TimeSlotState = "(string \<times> (string \<times> bool) list) list"

definition availabilityOf :: "string \<Rightarrow> TimeSlotState \<Rightarrow> AvailabilitySlot list" where
  "availabilityOf now slots =
     concat (map (\<lambda>(d, times).
       map (\<lambda>(t, a). \<lparr>date = d, time = t, available = a, timestamp = now\<rparr>) times) slots)"

definition submitBody ::
  "string \<Rightarrow> EventData \<Rightarrow> string \<Rightarrow> string \<Rightarrow> TimeSlotState \<Rightarrow> EventPatch" where
  "submitBody now ev currentUser userEmail slots =
     \<lparr>pId = evId ev,
      pName = Some (evName ev),
      pSelectedDates = Some (selectedDates ev),
      pRequireEmail = Some (requireEmail ev),
      pHideResponses = Some (hideResponses ev),
      pStartTime = Some (startTime ev),
      pEndTime = Some (endTime ev),
      pTimezone = Some (timezone ev),
      pTimeSlots = Some (timeSlots ev),
      pResponses = Some (filter (\<lambda>r. name r \<noteq> currentUser) (responses ev) @
        [\<lparr>name = currentUser, password = None, email = userEmail,
          availability = availabilityOf now slots, createdAt = None\<rparr>]),
      pResponseLimit = None\<rparr>"

text \<open>The matching half of the example token library.\<close>

definition demoVerify :: "string \<Rightarrow> string + JwtPayload" where
  "demoVerify t =
     (if CHR ''|'' \<in> set t then
        Inr \<lparr>jwtUserName = takeWhile (\<lambda>c. c \<noteq> CHR ''|'') t,
             jwtEventId = tl (dropWhile (\<lambda>c. c \<noteq> CHR ''|'') t)\<rparr>
      else Inl ''jwt malformed'')"

definition adaEvent :: EventData where
  "adaEvent =
     \<lparr>evId = ''e2'', evName = ''Retro'',
      selectedDates = [\<lparr>year = 1970, month = 1, day = 1\<rparr>],
      requireEmail = False, hideResponses = False,
      startTime = ''9:00 AM'', endTime = ''5:00 PM'',
      timezone = \<lparr>tzValue = ''UTC'', tzLabel = ''Universal Time (UTC)''\<rparr>,
      timeSlots = [''9:00 AM'', ''5:00 PM''],
      responses = [\<lparr>name = ''Ada'', password = None, email = [], availability = [],
        createdAt = Some ''t0''\<rparr>],
      responseLimit = None\<rparr>"

section \<open>The time grid\<close>

subsection \<open>Reading a time label\<close>

text \<open>
  \<^verbatim>\<open>label.match(/(\d+):(\d+)\s*(am|pm)?/i)\<close>: the leftmost place where a run of
  digits, a colon and a run of digits stand; both runs are greedy, the white space after
  them is skipped, and the third group is there when \<^verbatim>\<open>am\<close> or \<^verbatim>\<open>pm\<close> (in any
  case) follows. The result is the three groups, or \<open>None\<close> for \<^verbatim>\<open>null\<close>.
\<close>

definition isDigit :: "char \<Rightarrow> bool" where
  "isDigit c = (c \<in> set ''0123456789'')"

definition isSpace :: "char \<Rightarrow> bool" where
  "isSpace c = (c \<in> set [CHR '' '', CHR 0x09, CHR 0x0A, CHR 0x0B, CHR 0x0C, CHR 0x0D])"

definition meridiem :: "string \<Rightarrow> string option" where
  "meridiem s =
     (case s of
        a # m # rest \<Rightarrow>
          if (lowerChar a = CHR ''a'' \<or> lowerChar a = CHR ''p'') \<and> lowerChar m = CHR ''m''
          then Some [a, m] else None
      | _ \<Rightarrow> None)"

definition matchAt :: "string \<Rightarrow> (string \<times> string \<times> string option) option" where
  "matchAt s =
     (let g1 = takeWhile isDigit s; r1 = dropWhile isDigit s in
      if g1 = [] then None
      else case r1 of
        [] \<Rightarrow> None
      | c # r2 \<Rightarrow>
          if c \<noteq> CHR '':'' then None
          else let g2 = takeWhile isDigit r2; r3 = dropWhile isDigit r2 in
            if g2 = [] then None
            else Some (g1, g2, meridiem (dropWhile isSpace r3)))"

fun timeMatch :: "string \<Rightarrow> (string \<times> string \<times> string option) option" where
  "timeMatch [] = None"
| "timeMatch (c # cs) =
     (case matchAt (c # cs) of Some groups \<Rightarrow> Some groups | None \<Rightarrow> timeMatch cs)"

definition digitVal :: "char \<Rightarrow> int" where
  "digitVal c = (case map_of (zip ''0123456789'' [0, 1, 2, 3, 4, 5, 6, 7, 8, 9]) c of
                   Some v \<Rightarrow> v | None \<Rightarrow> 0)"

definition parseInt :: "string \<Rightarrow> int" where
  "parseInt ds = foldl (\<lambda>n c. 10 * n + digitVal c) 0 ds"

text \<open>The \<^verbatim>\<open>hour\<close> and \<^verbatim>\<open>minute\<close> expressions of lines 429 to 434 (and 444 to 449,
  606 to 611, 621 to 626).\<close>

definition hourOf :: "string \<times> string \<times> string option \<Rightarrow> int" where
  "hourOf parts =
     (case parts of (g1, g2, g3) \<Rightarrow>
        if map_option toLowerCase g3 = Some ''pm'' \<and> parseInt g1 \<noteq> 12 then parseInt g1 + 12
        else if map_option toLowerCase g3 = Some ''am'' \<and> parseInt g1 = 12 then 0
        else parseInt g1)"

definition minuteOf :: "string \<times> string \<times> string option \<Rightarrow> int" where
  "minuteOf parts = (case parts of (g1, g2, g3) \<Rightarrow> parseInt g2)"

subsection \<open>The date library\<close>

text \<open>
  The page uses Luxon for everything that needs the time zone database. The library is a
  parameter of the model:
  \<^item> \<open>fromObject zone d hour minute\<close> is \<^verbatim>\<open>DateTime.fromObject({year, month, day, hour,
    minute}, {zone}).toMillis()\<close>, and \<open>None\<close> when the DateTime is invalid (an hour or a
    minute out of range, an unknown zone);
  \<^item> \<open>validZone zone\<close> holds for the zones the library knows; \<^verbatim>\<open>setZone\<close> to another
    one returns an invalid DateTime;
  \<^item> \<open>toFormat zone t\<close> is the label \<^verbatim>\<open>toFormat('h:mm a')\<close> of the instant \<open>t\<close> in
    the zone;
  \<^item> \<open>plusDays zone t n\<close> is \<^verbatim>\<open>plus({ days: n })\<close>.
  A DateTime is immutable: \<^verbatim>\<open>setZone\<close> and \<^verbatim>\<open>plus\<close> return a new one.
  \<^verbatim>\<open>a <= b\<close> compares the instants. \<^verbatim>\<open>plus({ minutes: 15 })\<close> adds 900000
  milliseconds to the instant.
\<close>

record Luxon =
  fromObject :: "string \<Rightarrow> CalDate \<Rightarrow> int \<Rightarrow> int \<Rightarrow> int option"
  validZone :: "string \<Rightarrow> bool"
  toFormat :: "string \<Rightarrow> int \<Rightarrow> string"
  plusDays :: "string \<Rightarrow> int \<Rightarrow> int \<Rightarrow> int"

record DateTime =
  ts :: int
  zone :: string

definition setZone :: "Luxon \<Rightarrow> string \<Rightarrow> DateTime \<Rightarrow> DateTime option" where
  "setZone lx z dt = (if validZone lx z then Some (dt\<lparr>zone := z\<rparr>) else None)"

definition plusMinutes :: "int \<Rightarrow> DateTime \<Rightarrow> DateTime" where
  "plusMinutes n dt = dt\<lparr>ts := ts dt + n * 60 * 1000\<rparr>"

definition anchor :: "Luxon \<Rightarrow> string \<Rightarrow> CalDate \<Rightarrow> string \<times> string \<times> string option \<Rightarrow> DateTime option" where
  "anchor lx z d parts =
     map_option (\<lambda>t. \<lparr>ts = t, zone = z\<rparr>) (fromObject lx z d (hourOf parts) (minuteOf parts))"

subsection \<open>The slots\<close>

record TimeSlot =
  slotTimestamp :: int
  slotTime :: string
  selected :: bool

text \<open>The loop \<^verbatim>\<open>while (currentTime <= endTime)\<close> of lines 463 to 470 and 644 to 652.\<close>

function slotLoop :: "Luxon \<Rightarrow> DateTime \<Rightarrow> DateTime \<Rightarrow> TimeSlot list" where
  "slotLoop lx currentTime endT =
     (if ts currentTime \<le> ts endT then
        \<lparr>slotTimestamp = ts currentTime,
         slotTime = toFormat lx (zone currentTime) (ts currentTime),
         selected = False\<rparr> # slotLoop lx (plusMinutes 15 currentTime) endT
      else [])"
  by pat_completeness auto
termination
  by (relation "measure (\<lambda>(lx, c, e). nat (ts e - ts c + 1))") (auto simp: plusMinutes_def)

declare slotLoop.simps [simp del]

text \<open>An invalid DateTime compares false with everything, so the loop body never runs.\<close>

definition slotsBetween :: "Luxon \<Rightarrow> DateTime option \<Rightarrow> DateTime option \<Rightarrow> TimeSlot list" where
  "slotsBetween lx startDt endDt =
     (case (startDt, endDt) of
        (Some currentTime, Some endT) \<Rightarrow> slotLoop lx currentTime endT
      | _ \<Rightarrow> [])"

text \<open>\<^verbatim>\<open>generateTimeSlotsForTimezone\<close>, lines 414 to 473.\<close>

definition generateTimeSlotsForTimezone ::
  "Luxon \<Rightarrow> EventData option \<Rightarrow> string \<Rightarrow> CalDate \<Rightarrow> TimeSlot list" where
  "generateTimeSlotsForTimezone lx eventData userTimezone d =
     (case eventData of
        None \<Rightarrow> []
      | Some ev \<Rightarrow>
          (case (timeMatch (startTime ev), timeMatch (endTime ev)) of
             (Some startParts, Some endParts) \<Rightarrow>
               (let startInEventTz = anchor lx (tzValue (timezone ev)) d startParts;
                    endInEventTz = anchor lx (tzValue (timezone ev)) d endParts;
                    startInUserTz = Option.bind startInEventTz (setZone lx userTimezone);
                    endInUserTz = Option.bind endInEventTz (setZone lx userTimezone)
                in slotsBetween lx startInUserTz endInUserTz)
           | _ \<Rightarrow> []))"

text \<open>
  \<^verbatim>\<open>allTimeSlots\<close>, lines 591 to 655; \<open>today\<close> is \<^verbatim>\<open>new Date()\<close>. Line 641 is
  the expression statement \<^verbatim>\<open>endTime.plus({ days: 1 });\<close>: it computes a new DateTime,
  \<open>shifted\<close> below, that nothing reads, and \<^verbatim>\<open>endTime\<close> is the same afterwards.
\<close>

definition allTimeSlots ::
  "Luxon \<Rightarrow> EventData option \<Rightarrow> string \<Rightarrow> CalDate \<Rightarrow> TimeSlot list" where
  "allTimeSlots lx eventData userTimezone today =
     (case eventData of
        None \<Rightarrow> []
      | Some ev \<Rightarrow>
          if selectedDates ev = [] then []
          else
            (case (timeMatch (startTime ev), timeMatch (endTime ev)) of
               (Some startParts, Some endParts) \<Rightarrow>
                 (let startInEventTz = anchor lx (tzValue (timezone ev)) today startParts;
                      endInEventTz = anchor lx (tzValue (timezone ev)) today endParts;
                      startInUserTz = Option.bind startInEventTz (setZone lx userTimezone);
                      endInUserTz = Option.bind endInEventTz (setZone lx userTimezone);
                      shifted =
                        (case (startInUserTz, endInUserTz) of
                           (Some currentTime, Some endT) \<Rightarrow>
                             if ts endT \<le> ts currentTime
                             then Some (endT\<lparr>ts := plusDays lx (zone endT) (ts endT) 1\<rparr>)
                             else None
                         | _ \<Rightarrow> None)
                  in slotsBetween lx startInUserTz endInUserTz)
             | _ \<Rightarrow> []))"

subsection \<open>An instance of the library for the examples: the zone UTC\<close>

definition daysFromCivil :: "CalDate \<Rightarrow> int" where
  "daysFromCivil d =
     (let y = (if month d \<le> 2 then year d - 1 else year d);
          era = y div 400;
          yoe = y - era * 400;
          doy = (153 * (if month d > 2 then month d - 3 else month d + 9) + 2) div 5 + day d - 1;
          doe = yoe * 365 + yoe div 4 - yoe div 100 + doy
      in era * 146097 + doe - 719468)"

definition utcFormat :: "int \<Rightarrow> string" where
  "utcFormat t =
     (let m = (t div 60000) mod 1440; h = m div 60
      in numToString (if h mod 12 = 0 then 12 else h mod 12) @ '':'' @ pad2 (m mod 60) @
         (if h < 12 then '' AM'' else '' PM''))"

definition utcLuxon :: Luxon where
  "utcLuxon =
     \<lparr>fromObject = (\<lambda>z d h m.
        if z = ''UTC'' \<and> 0 \<le> h \<and> h \<le> 23 \<and> 0 \<le> m \<and> m \<le> 59
        then Some (daysFromCivil d * 86400000 + h * 3600000 + m * 60000) else None),
      validZone = (\<lambda>z. z = ''UTC''),
      toFormat = (\<lambda>z t. utcFormat t),
      plusDays = (\<lambda>z t n. t + n * 86400000)\<rparr>"

subsection \<open>An instance for the examples: New York on the day the clocks go forward\<close>

text \<open>
  On 10 March 2024 the zone America/New_York is five hours behind UTC until 2:00 AM and
  four hours behind from 3:00 AM, which is the instant 1710054000000; a wall-clock time
  between the two does not exist and is read as one hour later. The instance knows this
  zone and this date only.
\<close>

definition nyLuxon :: Luxon where
  "nyLuxon =
     \<lparr>fromObject = (\<lambda>z d h m.
        if z = ''America/New_York'' \<and> d = \<lparr>year = 2024, month = 3, day = 10\<rparr> \<and>
           0 \<le> h \<and> h \<le> 23 \<and> 0 \<le> m \<and> m \<le> 59
        then Some (daysFromCivil d * 86400000 + h * 3600000 + m * 60000 +
                   (if h < 3 then 5 else 4) * 3600000)
        else None),
      validZone = (\<lambda>z. z = ''America/New_York''),
      toFormat = (\<lambda>z t. utcFormat (t - (if t < 1710054000000 then 5 else 4) * 3600000)),
      plusDays = (\<lambda>z t n.
        if t < 1710054000000 \<and> 1710054000000 \<le> t + n * 86400000
        then t + n * 86400000 - 3600000 else t + n * 86400000)\<rparr>"

definition clockChangeEvent :: EventData where
  "clockChangeEvent =
     \<lparr>evId = ''e5'', evName = ''Early shift'',
      selectedDates = [\<lparr>year = 2024, month = 3, day = 10\<rparr>],
      requireEmail = False, hideResponses = False,
      startTime = ''1:00 AM'', endTime = ''4:00 AM'',
      timezone = \<lparr>tzValue = ''America/New_York'', tzLabel = ''Eastern Time (ET)''\<rparr>,
      timeSlots = [''1:00 AM'', ''4:00 AM''],
      responses = [],
      responseLimit = None\<rparr>"

subsection \<open>The labels of a window and the wall-clock time they denote\<close>

text \<open>
  The labels the creation page offers (\<^verbatim>\<open>EventCreationPage.tsx\<close>, lines 93 to 97) and
  the format \<^verbatim>\<open>h:mm a\<close> have the form \<^verbatim>\<open>9:00 AM\<close>: the hour, a colon, the minute
  with two digits, a space and the half of the day. \<open>hour24\<close> and \<open>wallMinutes\<close> are the
  hour and the minutes after midnight that such a label denotes, in the words of the
  specification: 12 AM is 0 and 12 PM is 12.
\<close>

datatype Meridiem = AM | PM

definition minuteDigits :: "nat \<Rightarrow> string" where
  "minuteDigits m = (if m < 10 then ''0'' @ natDigits m else natDigits m)"

definition label12 :: "nat \<Rightarrow> nat \<Rightarrow> Meridiem \<Rightarrow> string" where
  "label12 h m x =
     natDigits h @ '':'' @ minuteDigits m @ (case x of AM \<Rightarrow> '' AM'' | PM \<Rightarrow> '' PM'')"

definition hour24 :: "nat \<Rightarrow> Meridiem \<Rightarrow> int" where
  "hour24 h x =
     (case x of
        AM \<Rightarrow> if h = 12 then 0 else int h
      | PM \<Rightarrow> if h = 12 then 12 else int h + 12)"

definition wallMinutes :: "nat \<Rightarrow> nat \<Rightarrow> Meridiem \<Rightarrow> int" where
  "wallMinutes h m x = 60 * hour24 h x + int m"

text \<open>An event whose window crosses midnight, from 10:00 PM to 2:00 AM.\<close>

definition nightEvent :: EventData where
  "nightEvent =
     \<lparr>evId = ''e3'', evName = ''Night shift'',
      selectedDates = [\<lparr>year = 1970, month = 1, day = 1\<rparr>],
      requireEmail = False, hideResponses = False,
      startTime = ''10:00 PM'', endTime = ''2:00 AM'',
      timezone = \<lparr>tzValue = ''UTC'', tzLabel = ''Universal Time (UTC)''\<rparr>,
      timeSlots = [''10:00 PM'', ''2:00 AM''],
      responses = [],
      responseLimit = None\<rparr>"

section \<open>Aggregation\<close>

text \<open>
  The state of the page that the aggregation reads. \<^verbatim>\<open>selectedUsers\<close> is an object
  from names to flags, here the list of its entries (an object has every key once).
\<close>

datatype ViewMode = personal | everyone

record ViewState =
  eventData :: "EventData option"
  viewMode :: ViewMode
  selectedTimeSlots :: TimeSlotState
  selectedUsers :: "(string \<times> bool) list"
  userTimezone :: string

definition hasSelectedUsers :: "ViewState \<Rightarrow> bool" where
  "hasSelectedUsers st = list_ex (\<lambda>sel. sel) (map snd (selectedUsers st))"

text \<open>
  \<^verbatim>\<open>selectedUsers[key]\<close> as a condition. The object is a plain one, so a key that is
  not its own is looked up in \<^verbatim>\<open>Object.prototype\<close>, and every property found there is
  a function or an object, which counts as true.
\<close>

definition objectPrototypeKeys :: "string list" where
  "objectPrototypeKeys =
     [''constructor'', ''__defineGetter__'', ''__defineSetter__'', ''hasOwnProperty'',
      ''__lookupGetter__'', ''__lookupSetter__'', ''isPrototypeOf'', ''propertyIsEnumerable'',
      ''toString'', ''valueOf'', ''__proto__'', ''toLocaleString'']"

definition isSelected :: "ViewState \<Rightarrow> string \<Rightarrow> bool" where
  "isSelected st key =
     (case map_of (selectedUsers st) key of
        Some sel \<Rightarrow> sel
      | None \<Rightarrow> key \<in> set objectPrototypeKeys)"

text \<open>\<^verbatim>\<open>Object.keys(selectedUsers).filter(key => selectedUsers[key])\<close>, line 348.\<close>

definition selectedKeys :: "ViewState \<Rightarrow> string list" where
  "selectedKeys st = filter (isSelected st) (map fst (selectedUsers st))"

record AvailabilityDetail =
  detailName :: string
  detailEmail :: string
  detailTimestamp :: string

text \<open>The responses \<^verbatim>\<open>getAvailabilityDetails\<close> looks at, lines 317 to 320.\<close>

definition filteredResponses :: "ViewState \<Rightarrow> EventData \<Rightarrow> EventResponse list" where
  "filteredResponses st ev =
     (if hasSelectedUsers st then filter (\<lambda>r. isSelected st (name r)) (responses ev)
      else responses ev)"

definition availableAt :: "string \<Rightarrow> string \<Rightarrow> EventResponse \<Rightarrow> bool" where
  "availableAt d t r =
     (find (\<lambda>a. date a = d \<and> time a = t \<and> available a) (availability r) \<noteq> None)"

text \<open>\<^verbatim>\<open>getAvailabilityDetails\<close>, lines 314 to 335.\<close>

definition getAvailabilityDetails ::
  "string \<Rightarrow> ViewState \<Rightarrow> string \<Rightarrow> string \<Rightarrow> AvailabilityDetail list" where
  "getAvailabilityDetails now st d t =
     (case eventData st of
        None \<Rightarrow> []
      | Some ev \<Rightarrow>
          map (\<lambda>r.
            \<lparr>detailName = name r,
             detailEmail = email r,
             detailTimestamp =
               (case find (\<lambda>a. date a = d \<and> time a = t) (availability r) of
                  None \<Rightarrow> now
                | Some a \<Rightarrow> if timestamp a = [] then now else timestamp a)\<rparr>)
            (filter (availableAt d t) (filteredResponses st ev)))"

subsection \<open>The colour of a slot\<close>

definition classNone :: string where
  "classNone = ''border-gray-800 hover:bg-gray-700 hover:text-white''"

definition classPersonal :: string where
  "classPersonal = ''bg-blue-600 border-blue-500 hover:bg-blue-700 text-white''"

definition classFull :: string where
  "classFull = ''bg-green-900 border-green-800 hover:bg-white hover:text-green-900''"

definition classHigh :: string where
  "classHigh = ''bg-green-700 border-green-600 hover:bg-white hover:text-green-700''"

definition classMedium :: string where
  "classMedium = ''bg-green-500 border-green-400 hover:bg-white hover:text-green-500''"

definition classLow :: string where
  "classLow = ''bg-green-300 border-green-200 hover:bg-white hover:text-green-300''"

text \<open>
  Lines 351 to 359 of \<^verbatim>\<open>getTimeSlotColor\<close>, from the two numbers it divides. The
  quotient of two counts is compared as the exact fraction.
\<close>

definition percentageColor :: "nat \<Rightarrow> nat \<Rightarrow> string" where
  "percentageColor availableCount totalResponses =
     (if totalResponses = 0 then classNone
      else
        (let percentage = (of_nat availableCount / of_nat totalResponses :: rat) in
         if percentage = 1 then classFull
         else if percentage \<ge> 75 / 100 then classHigh
         else if percentage \<ge> 5 / 10 then classMedium
         else if percentage > 0 then classLow
         else classNone))"

text \<open>\<^verbatim>\<open>getTimeSlotColor\<close>, lines 337 to 360.\<close>

definition getTimeSlotColor :: "string \<Rightarrow> ViewState \<Rightarrow> string \<Rightarrow> int \<Rightarrow> string" where
  "getTimeSlotColor now st d t =
     (case eventData st of
        None \<Rightarrow> classNone
      | Some ev \<Rightarrow>
          if viewMode st = personal then
            (if Option.bind (map_of (selectedTimeSlots st) d) (\<lambda>times. map_of times (numToString t))
                = Some True
             then classPersonal else classNone)
          else
            (let availableResponses = getAvailabilityDetails now st d (numToString t);
                 totalResponses =
                   (if hasSelectedUsers st then length (selectedKeys st)
                    else length (responses ev))
             in percentageColor (length availableResponses) totalResponses))"

subsection \<open>Best times\<close>

text \<open>\<^verbatim>\<open>format(new Date(date), 'yyyy-MM-dd')\<close> for a year of four digits.\<close>

definition formatDate :: "CalDate \<Rightarrow> string" where
  "formatDate d = numToString (year d) @ ''-'' @ pad2 (month d) @ ''-'' @ pad2 (day d)"

record SlotAvailability =
  saTimestamp :: int
  saTime :: string
  saAvailable :: nat
  saTotal :: nat

text \<open>\<^verbatim>\<open>availabilityMap\<close>, lines 1481 to 1487 (and 1468 to 1474).\<close>

definition availabilityMap ::
  "Luxon \<Rightarrow> string \<Rightarrow> ViewState \<Rightarrow> CalDate \<Rightarrow> SlotAvailability list" where
  "availabilityMap lx now st d =
     (case eventData st of
        None \<Rightarrow> []
      | Some ev \<Rightarrow>
          map (\<lambda>slot.
            \<lparr>saTimestamp = slotTimestamp slot,
             saTime = slotTime slot,
             saAvailable =
               length (getAvailabilityDetails now st (formatDate d)
                 (numToString (slotTimestamp slot))),
             saTotal = length (responses ev)\<rparr>)
            (generateTimeSlotsForTimezone lx (eventData st) (userTimezone st) d))"

text \<open>
  \<^verbatim>\<open>(slot.available / slot.total) >= 0.51\<close>: a quotient by zero is \<^verbatim>\<open>NaN\<close> for
  0 / 0, which compares false, and \<^verbatim>\<open>Infinity\<close> otherwise.
\<close>

definition majority :: "SlotAvailability \<Rightarrow> bool" where
  "majority slot =
     (if saTotal slot = 0 then saAvailable slot \<noteq> 0
      else (of_nat (saAvailable slot) / of_nat (saTotal slot) :: rat) \<ge> 51 / 100)"

text \<open>\<^verbatim>\<open>bestSlots\<close>, lines 1490 to 1492.\<close>

definition bestSlots ::
  "Luxon \<Rightarrow> string \<Rightarrow> ViewState \<Rightarrow> CalDate \<Rightarrow> SlotAvailability list" where
  "bestSlots lx now st d = filter majority (availabilityMap lx now st d)"

text \<open>The test of lines 1467 to 1478: some date has a slot for the majority.\<close>

definition someMajority :: "Luxon \<Rightarrow> string \<Rightarrow> ViewState \<Rightarrow> bool" where
  "someMajority lx now st =
     (case eventData st of
        None \<Rightarrow> False
      | Some ev \<Rightarrow>
          list_ex (\<lambda>d. list_ex majority (availabilityMap lx now st d)) (selectedDates ev))"

subsection \<open>A poll for the examples\<close>

text \<open>
  Four responses on 1 January 1970, window 10:00 AM to 10:30 AM in UTC. The slot keys are
  the instants in milliseconds: 36000000 is 10:00 AM, 36900000 is 10:15 AM. Ann is
  available at both, Bob says no to the first and yes to the second, Cy marks only the
  second, Dee marks nothing.
\<close>

definition ann :: EventResponse where
  "ann = \<lparr>name = ''Ann'', password = None, email = [],
     availability =
       [\<lparr>date = ''1970-01-01'', time = ''36000000'', available = True, timestamp = ''t1''\<rparr>,
        \<lparr>date = ''1970-01-01'', time = ''36900000'', available = True, timestamp = ''t1''\<rparr>],
     createdAt = Some ''t0''\<rparr>"

definition bob :: EventResponse where
  "bob = \<lparr>name = ''Bob'', password = None, email = [],
     availability =
       [\<lparr>date = ''1970-01-01'', time = ''36000000'', available = False, timestamp = ''t2''\<rparr>,
        \<lparr>date = ''1970-01-01'', time = ''36900000'', available = True, timestamp = ''t2''\<rparr>],
     createdAt = Some ''t0''\<rparr>"

definition cy :: EventResponse where
  "cy = \<lparr>name = ''Cy'', password = None, email = [],
     availability =
       [\<lparr>date = ''1970-01-01'', time = ''36900000'', available = True, timestamp = ''t3''\<rparr>],
     createdAt = Some ''t0''\<rparr>"

definition dee :: EventResponse where
  "dee = \<lparr>name = ''Dee'', password = None, email = [], availability = [],
     createdAt = Some ''t0''\<rparr>"

text \<open>A response under the name \<^verbatim>\<open>constructor\<close>, available at 10:00 AM.\<close>

definition ctor :: EventResponse where
  "ctor = \<lparr>name = ''constructor'', password = None, email = [],
     availability =
       [\<lparr>date = ''1970-01-01'', time = ''36000000'', available = True, timestamp = ''t4''\<rparr>],
     createdAt = Some ''t0''\<rparr>"

definition pollEvent :: "EventResponse list \<Rightarrow> EventData" where
  "pollEvent rs =
     \<lparr>evId = ''e4'', evName = ''Poll'',
      selectedDates = [\<lparr>year = 1970, month = 1, day = 1\<rparr>],
      requireEmail = False, hideResponses = False,
      startTime = ''10:00 AM'', endTime = ''10:30 AM'',
      timezone = \<lparr>tzValue = ''UTC'', tzLabel = ''Universal Time (UTC)''\<rparr>,
      timeSlots = [''10:00 AM''],
      responses = rs,
      responseLimit = None\<rparr>"

definition pollState :: "EventResponse list \<Rightarrow> (string \<times> bool) list \<Rightarrow> ViewState" where
  "pollState rs sel =
     \<lparr>eventData = Some (pollEvent rs), viewMode = everyone, selectedTimeSlots = [],
      selectedUsers = sel, userTimezone = ''UTC''\<rparr>"

section \<open>Sign-in: results\<close>

lemma toLowerCase_examples:
  "toLowerCase ''Ada'' = ''ada''" "toLowerCase ''ada'' = ''ada''"
  "toLowerCase ''Lee'' \<noteq> toLowerCase ''Sam''"
  by (simp_all add: toLowerCase_def lowerChar_def)

text \<open>A new name with a password is signed in and stored, whatever the number of responses;
  an existing name on a limited event is signed in when the password is the stored one.\<close>

lemma POST_users_new_name:
  assumes "eventId \<noteq> []" and "userName \<noteq> []"
    and "findOne eventId events = Some event"
    and "find (\<lambda>r. toLowerCase (name r) = toLowerCase userName) (responses event) = None"
    and "truthyStr pw"
  shows "POST_users sign now events eventId userName pw limited =
           (signedIn sign eventId userName,
            updateOne eventId
              (\<lambda>e. e\<lparr>responses := responses e @ [newResponse now event userName pw]\<rparr>) events)"
  using assms by (simp add: POST_users_def)

lemma POST_users_existing_name:
  assumes "eventId \<noteq> []" and "userName \<noteq> []"
    and "findOne eventId events = Some event"
    and "find (\<lambda>r. toLowerCase (name r) = toLowerCase userName) (responses event) = Some r"
    and "truthyNum (responseLimit event)"
    and "truthyStr pw"
  shows "POST_users sign now events eventId userName pw limited =
           (if password r = pw then (signedIn sign eventId userName, events)
            else (reply 401 (ErrorJson ''Incorrect password''), events))"
  using assms by (simp add: POST_users_def)

text \<open>
  Claim C1. On an event whose responses have reached the response limit, a sign-in with a
  brand-new name is to be refused with an "event locked" error that names the limit.
  The handler has no such check: at the event \<open>limitedEvent\<close> (limit 1, one response,
  Sam) the new name Lee with a password is signed in with status 200, and the stored
  event then has two responses. The page's own gate \<open>onSignInLocked\<close> refuses the same
  name.
\<close>

theorem C1_new_name_admitted_past_limit:
  "isResponseLimitReached limitedEvent \<and>
   find (\<lambda>r. toLowerCase (name r) = toLowerCase ''Lee'') (responses limitedEvent) = None \<and>
   onSignInLocked limitedEvent ''Lee'' \<and>
   fst (POST_users demoSign ''t1'' [limitedEvent] ''e1'' ''Lee'' (Some ''y'') True) =
     \<lparr>status = 200, json = SignInJson ''Lee'' ''Successfully signed in'',
      cookie = Some (''auth_token_e1'', ''Lee|e1'')\<rparr> \<and>
   map (\<lambda>e. map name (responses e))
     (snd (POST_users demoSign ''t1'' [limitedEvent] ''e1'' ''Lee'' (Some ''y'') True)) =
     [[''Sam'', ''Lee'']]"
  by (simp add: isResponseLimitReached_def onSignInLocked_def POST_users_def limitedEvent_def
      samResponse_def findOne_def truthyNum_def truthyStr_def toLowerCase_def lowerChar_def
      signedIn_def demoSign_def newResponse_def)

text \<open>
  Claim C5, as amended. A sign-in without a password on a stored event whose response
  limit is set is refused by the first guard of the handler: the status is 400 (a
  validation error), no cookie is set and the collection is unchanged. The status 401 of
  the claim is never reached on this path.
\<close>

theorem C5_missing_password_rejected_400:
  assumes "findOne eventId events = Some event"
    and "truthyNum (responseLimit event)"
    and "\<not> truthyStr pw"
  shows "status (fst (POST_users sign now events eventId userName pw limited)) = 400 \<and>
         cookie (fst (POST_users sign now events eventId userName pw limited)) = None \<and>
         snd (POST_users sign now events eventId userName pw limited) = events"
  using assms by (simp add: POST_users_def reply_def)

text \<open>The amended claim C5 at the event \<open>limitedEvent\<close>, Sam signing in with no password.\<close>

theorem C5_missing_password_witness:
  "findOne ''e1'' [limitedEvent] = Some limitedEvent \<and>
   truthyNum (responseLimit limitedEvent) \<and>
   \<not> truthyStr None \<and>
   status (fst (POST_users demoSign ''t1'' [limitedEvent] ''e1'' ''Sam'' None True)) = 400 \<and>
   cookie (fst (POST_users demoSign ''t1'' [limitedEvent] ''e1'' ''Sam'' None True)) = None \<and>
   snd (POST_users demoSign ''t1'' [limitedEvent] ''e1'' ''Sam'' None True) = [limitedEvent]"
proof -
  have a: "findOne ''e1'' [limitedEvent] = Some limitedEvent"
    by (simp add: findOne_def limitedEvent_def)
  have b: "truthyNum (responseLimit limitedEvent)"
    by (simp add: truthyNum_def limitedEvent_def)
  have c: "\<not> truthyStr None"
    by (simp add: truthyStr_def)
  from C5_missing_password_rejected_400 [OF a b c, of demoSign "''t1''" "''Sam''" True] a b c
  show ?thesis by simp
qed

text \<open>Claim C5 as stated fails: the same request is answered with 400, not 401.\<close>

theorem C5_status_401_counterexample:
  "status (fst (POST_users demoSign ''t1'' [limitedEvent] ''e1'' ''Sam'' None True)) = 400 \<and>
   status (fst (POST_users demoSign ''t1'' [limitedEvent] ''e1'' ''Sam'' None True)) \<noteq> 401"
  by (simp add: POST_users_def limitedEvent_def findOne_def truthyNum_def truthyStr_def reply_def)

section \<open>Saving: results\<close>

lemma findOne_updateOne:
  "findOne i es = Some e \<Longrightarrow> evId (f e) = i \<Longrightarrow> findOne i (updateOne i f es) = Some (f e)"
  by (induction es) (auto simp: findOne_def split: if_splits)

lemma evId_setFields: "evId (setFields b e) = pId b"
  by (simp add: setFields_def)

text \<open>The four outcomes of \<open>PUT_events\<close>, in the order the handler reaches them.\<close>

lemma PUT_events_status:
  "status (fst (PUT_events verify cookies events body)) =
     (case map_of cookies (''auth_token_'' @ pId body) of
        None \<Rightarrow> 401
      | Some tok \<Rightarrow>
          if tok = [] then 401
          else case verify tok of
            Inl msg \<Rightarrow> 500
          | Inr decoded \<Rightarrow> (case findOne (pId body) events of None \<Rightarrow> 404 | Some e \<Rightarrow> 200))"
  by (simp add: PUT_events_def reply_def split: option.splits sum.splits)

text \<open>
  Claim C3. A \<^verbatim>\<open>PUT\<close> whose credential is invalid or expired is to be answered with
  401. The handler calls \<^verbatim>\<open>verify\<close> outside any \<^verbatim>\<open>try\<close> of its own, so the error
  reaches the outer \<^verbatim>\<open>catch\<close>: with the cookie \<^verbatim>\<open>garbage\<close> the answer is 500. The
  session check \<open>GET_users\<close> answers the same cookie with 401.
\<close>

theorem C3_invalid_token_is_500:
  "map_of [(''auth_token_e1'', ''garbage'')] (''auth_token_'' @ evId limitedEvent) =
     Some ''garbage'' \<and>
   demoVerify ''garbage'' = Inl ''jwt malformed'' \<and>
   PUT_events demoVerify [(''auth_token_e1'', ''garbage'')] [limitedEvent]
       (submitBody ''t2'' limitedEvent ''Sam'' [] []) =
     (\<lparr>status = 500, json = ErrorJson ''Failed to update event: jwt malformed'',
       cookie = None\<rparr>,
      [limitedEvent]) \<and>
   GET_users demoVerify [(''auth_token_e1'', ''garbage'')] ''e1'' =
     \<lparr>status = 401, json = ErrorJson ''Invalid token'', cookie = None\<rparr>"
  by (simp add: PUT_events_def GET_users_def demoVerify_def submitBody_def limitedEvent_def
      reply_def)

text \<open>
  Claim C9, as amended. A \<^verbatim>\<open>PUT\<close> with a cookie for the event's id whose token
  verifies, whatever user and event the token names, is answered with 200 and writes
  every field the body carries over the stored document: the responses of every
  identity, the dates, the window and the time zone among them. A field the body does not
  carry keeps its stored value. Nothing compares the token's user with the responses
  written.
\<close>

theorem C9_put_overwrites_fields_of_body:
  assumes "map_of cookies (''auth_token_'' @ pId body) = Some tok"
    and "tok \<noteq> []"
    and "verify tok = Inr decoded"
    and "findOne (pId body) events = Some e"
  shows "fst (PUT_events verify cookies events body) = reply 200 (EventJson (setFields body e)) \<and>
         snd (PUT_events verify cookies events body) =
           updateOne (pId body) (setFields body) events \<and>
         findOne (pId body) (snd (PUT_events verify cookies events body)) =
           Some (setFields body e) \<and>
         responses (setFields body e) =
           (case pResponses body of None \<Rightarrow> responses e | Some v \<Rightarrow> v) \<and>
         selectedDates (setFields body e) =
           (case pSelectedDates body of None \<Rightarrow> selectedDates e | Some v \<Rightarrow> v) \<and>
         startTime (setFields body e) =
           (case pStartTime body of None \<Rightarrow> startTime e | Some v \<Rightarrow> v) \<and>
         endTime (setFields body e) =
           (case pEndTime body of None \<Rightarrow> endTime e | Some v \<Rightarrow> v) \<and>
         timezone (setFields body e) =
           (case pTimezone body of None \<Rightarrow> timezone e | Some v \<Rightarrow> v) \<and>
         responseLimit (setFields body e) =
           (case pResponseLimit body of None \<Rightarrow> responseLimit e | Some v \<Rightarrow> v)"
proof -
  have put: "PUT_events verify cookies events body =
      (reply 200 (EventJson (setFields body e)), updateOne (pId body) (setFields body) events)"
    using assms by (simp add: PUT_events_def)
  have found: "findOne (pId body) (updateOne (pId body) (setFields body) events) =
      Some (setFields body e)"
    using assms(4) by (rule findOne_updateOne) (rule evId_setFields)
  show ?thesis
    using put found by (simp add: setFields_def)
qed

text \<open>
  The amended claim C9 at the event \<open>limitedEvent\<close>: the token names Lee, who has no
  response there, and the body replaces the list of responses.
\<close>

theorem C9_put_overwrites_witness:
  "map_of [(''auth_token_e1'', ''Lee|e1'')]
      (''auth_token_'' @ pId (submitBody ''t2'' limitedEvent ''Lee'' [] [])) = Some ''Lee|e1'' \<and>
   ''Lee|e1'' \<noteq> [] \<and>
   demoVerify ''Lee|e1'' = Inr \<lparr>jwtUserName = ''Lee'', jwtEventId = ''e1''\<rparr> \<and>
   findOne (pId (submitBody ''t2'' limitedEvent ''Lee'' [] [])) [limitedEvent] =
     Some limitedEvent \<and>
   status (fst (PUT_events demoVerify [(''auth_token_e1'', ''Lee|e1'')] [limitedEvent]
     (submitBody ''t2'' limitedEvent ''Lee'' [] []))) = 200 \<and>
   map (\<lambda>e. map name (responses e))
     (snd (PUT_events demoVerify [(''auth_token_e1'', ''Lee|e1'')] [limitedEvent]
       (submitBody ''t2'' limitedEvent ''Lee'' [] []))) = [[''Sam'', ''Lee'']]"
proof -
  let ?body = "submitBody ''t2'' limitedEvent ''Lee'' [] []"
  have a: "map_of [(''auth_token_e1'', ''Lee|e1'')] (''auth_token_'' @ pId ?body) =
      Some ''Lee|e1''"
    by (simp add: submitBody_def limitedEvent_def)
  have b: "''Lee|e1'' \<noteq> []" by simp
  have c: "demoVerify ''Lee|e1'' = Inr \<lparr>jwtUserName = ''Lee'', jwtEventId = ''e1''\<rparr>"
    by (simp add: demoVerify_def)
  have d: "findOne (pId ?body) [limitedEvent] = Some limitedEvent"
    by (simp add: findOne_def submitBody_def limitedEvent_def)
  have e: "map (\<lambda>e. map name (responses e))
      (updateOne (pId ?body) (setFields ?body) [limitedEvent]) = [[''Sam'', ''Lee'']]"
    by (simp add: submitBody_def limitedEvent_def setFields_def samResponse_def)
  from C9_put_overwrites_fields_of_body [where cookies = "[(''auth_token_e1'', ''Lee|e1'')]"
      and body = ?body and tok = "''Lee|e1''" and verify = demoVerify
      and decoded = "\<lparr>jwtUserName = ''Lee'', jwtEventId = ''e1''\<rparr>"
      and events = "[limitedEvent]" and e = limitedEvent, OF a b c d] a b c d e
  show ?thesis by (simp add: reply_def)
qed

text \<open>
  Claim C9 as stated fails where it says the stored document is replaced wholesale by the
  request body: the body the page sends carries no \<^verbatim>\<open>responseLimit\<close>, and the stored
  limit is the same after the request, so the same body leaves two different documents
  behind on two different stored events.
\<close>

theorem C9_wholesale_counterexample:
  "demoVerify ''Lee|e1'' = Inr \<lparr>jwtUserName = ''Lee'', jwtEventId = ''e1''\<rparr> \<and>
   pResponseLimit (submitBody ''t2'' limitedEvent ''Lee'' [] []) = None \<and>
   status (fst (PUT_events demoVerify [(''auth_token_e1'', ''Lee|e1'')] [limitedEvent]
     (submitBody ''t2'' limitedEvent ''Lee'' [] []))) = 200 \<and>
   map responseLimit (snd (PUT_events demoVerify [(''auth_token_e1'', ''Lee|e1'')] [limitedEvent]
     (submitBody ''t2'' limitedEvent ''Lee'' [] []))) = [Some 1] \<and>
   map responseLimit (snd (PUT_events demoVerify [(''auth_token_e1'', ''Lee|e1'')]
     [limitedEvent\<lparr>responseLimit := Some 5\<rparr>]
     (submitBody ''t2'' limitedEvent ''Lee'' [] []))) = [Some 5]"
  by (simp add: PUT_events_def demoVerify_def submitBody_def limitedEvent_def reply_def
      findOne_def setFields_def)

text \<open>
  Claim C4. No two responses of an event are to have names that are equal up to case, and
  every operation is to match names without regard to case. The sign-in handler does; the
  page does not. At the event \<open>adaEvent\<close>, whose only response is Ada's, the name
  \<^verbatim>\<open>ada\<close> signs in as the existing response and gets a token for \<^verbatim>\<open>ada\<close>; the
  autosave of the page then keeps every response whose name is not exactly \<^verbatim>\<open>ada\<close>
  and appends one named \<^verbatim>\<open>ada\<close>, and the handler stores both.
\<close>

theorem C4_two_spellings_stored:
  "fst (POST_users demoSign ''t1'' [adaEvent] ''e2'' ''ada'' None False) =
     \<lparr>status = 200, json = SignInJson ''ada'' ''Successfully signed in'',
      cookie = Some (''auth_token_e2'', ''ada|e2'')\<rparr> \<and>
   snd (POST_users demoSign ''t1'' [adaEvent] ''e2'' ''ada'' None False) = [adaEvent] \<and>
   GET_users demoVerify [(''auth_token_e2'', ''ada|e2'')] ''e2'' =
     \<lparr>status = 200, json = UserJson ''ada'', cookie = None\<rparr> \<and>
   status (fst (PUT_events demoVerify [(''auth_token_e2'', ''ada|e2'')] [adaEvent]
     (submitBody ''t2'' adaEvent ''ada'' [] [(''1970-01-01'', [(''50400000'', True)])]))) = 200 \<and>
   map (\<lambda>e. map name (responses e))
     (snd (PUT_events demoVerify [(''auth_token_e2'', ''ada|e2'')] [adaEvent]
       (submitBody ''t2'' adaEvent ''ada'' [] [(''1970-01-01'', [(''50400000'', True)])]))) =
     [[''Ada'', ''ada'']] \<and>
   \<not> distinct (map (\<lambda>r. toLowerCase (name r)) (concat (map responses
     (snd (PUT_events demoVerify [(''auth_token_e2'', ''ada|e2'')] [adaEvent]
       (submitBody ''t2'' adaEvent ''ada'' [] [(''1970-01-01'', [(''50400000'', True)])]))))))"
  by (simp add: POST_users_def GET_users_def PUT_events_def demoSign_def demoVerify_def
      submitBody_def adaEvent_def findOne_def truthyNum_def truthyStr_def toLowerCase_def
      lowerChar_def signedIn_def reply_def setFields_def availabilityOf_def)

section \<open>The time grid: results\<close>

text \<open>The instants of the loop: the first is the start, each next one 900000 milliseconds
  later, as long as the end is not passed.\<close>

lemma slotLoop_timestamps:
  "map slotTimestamp (slotLoop lx c e) =
     map (\<lambda>i. ts c + 900000 * int i) [0..<nat ((ts e - ts c) div 900000 + 1)]"
proof (induction lx c e rule: slotLoop.induct)
  case (1 lx c e)
  show ?case
  proof (cases "ts c \<le> ts e")
    case True
    let ?n = "nat ((ts e - (ts c + 900000)) div 900000 + 1)"
    have step: "ts (plusMinutes 15 c) = ts c + 900000"
      by (simp add: plusMinutes_def)
    have IH: "map slotTimestamp (slotLoop lx (plusMinutes 15 c) e) =
        map (\<lambda>i. ts c + 900000 + 900000 * int i) [0..<?n]"
      using "1.IH" [OF True] by (simp add: step)
    have n: "nat ((ts e - ts c) div 900000 + 1) = Suc ?n"
      using True by (simp add: nat_add_distrib div_pos_pos_trivial) 
    have "map slotTimestamp (slotLoop lx c e) =
        ts c # map (\<lambda>i. ts c + 900000 + 900000 * int i) [0..<?n]"
      using True IH by (subst slotLoop.simps) simp
    also have "\<dots> = map (\<lambda>i. ts c + 900000 * int i) [0..<Suc ?n]"
      by (simp add: map_upt_Suc algebra_simps del: upt_Suc)
    finally show ?thesis by (simp only: n)
  next
    case False
    then have "(ts e - ts c) div 900000 + 1 \<le> 0"
      by simp
    then show ?thesis
      using False by (subst slotLoop.simps) simp
  qed
qed

lemma slotLoop_empty: "ts e < ts c \<Longrightarrow> slotLoop lx c e = []"
  by (subst slotLoop.simps) simp

lemma slots_of_window:
  assumes "timeMatch (startTime ev) = Some sp"
    and "timeMatch (endTime ev) = Some ep"
    and "fromObject lx (tzValue (timezone ev)) d (hourOf sp) (minuteOf sp) = Some s"
    and "fromObject lx (tzValue (timezone ev)) d (hourOf ep) (minuteOf ep) = Some e"
    and "validZone lx u"
  shows "generateTimeSlotsForTimezone lx (Some ev) u d =
           slotLoop lx \<lparr>ts = s, zone = u\<rparr> \<lparr>ts = e, zone = u\<rparr>"
    and "selectedDates ev \<noteq> [] \<Longrightarrow>
         allTimeSlots lx (Some ev) u d = slotLoop lx \<lparr>ts = s, zone = u\<rparr> \<lparr>ts = e, zone = u\<rparr>"
  using assms
  by (simp_all add: generateTimeSlotsForTimezone_def allTimeSlots_def anchor_def setZone_def
      slotsBetween_def Let_def)

lemma utc_valid: "validZone utcLuxon ''UTC''"
  by (simp add: utcLuxon_def)

lemma sorted_steps: "sorted_wrt (<) (map (\<lambda>i. s + 900000 * int i) [0..<n])"
  by (simp add: sorted_wrt_iff_nth_less)

lemma window_count: "s \<le> e \<Longrightarrow> nat ((e - s) div 900000 + 1) = nat ((e - s) div 60000 div 15) + 1"
  by (simp add: div_mult2_eq [symmetric] nat_add_distrib)

text \<open>Reading a label of the form \<open>label12\<close> gives back its hour, its minute and its half
  of the day.\<close>

lemma digit_nth: "k < 10 \<Longrightarrow> isDigit (''0123456789'' ! k) \<and> digitVal (''0123456789'' ! k) = int k"
proof -
  assume "k < 10"
  then have "k \<in> {0, 1, 2, 3, 4, 5, 6, 7, 8, 9}" by auto
  then show ?thesis
    by (auto simp: isDigit_def digitVal_def)
qed

lemma natDigits_digits: "natDigits n \<noteq> [] \<and> list_all isDigit (natDigits n)"
proof (induction n rule: natDigits.induct)
  case (1 n)
  show ?case
  proof (cases "n < 10")
    case True
    then show ?thesis
      by (subst (1 2) natDigits.simps) (simp add: digit_nth)
  next
    case False
    then show ?thesis
      using "1.IH" by (subst (1 2) natDigits.simps) (simp add: digit_nth)
  qed
qed

lemma parseInt_snoc: "parseInt (ds @ [c]) = 10 * parseInt ds + digitVal c"
  by (simp add: parseInt_def)

lemma parseInt_natDigits: "parseInt (natDigits n) = int n"
proof (induction n rule: natDigits.induct)
  case (1 n)
  show ?case
  proof (cases "n < 10")
    case True
    then show ?thesis
      by (subst natDigits.simps) (simp add: parseInt_def digit_nth)
  next
    case False
    then have "parseInt (natDigits n) = 10 * int (n div 10) + int (n mod 10)"
      using "1.IH" by (subst natDigits.simps) (simp add: parseInt_snoc digit_nth)
    moreover have "int n = int (10 * (n div 10) + n mod 10)"
      by simp
    then have "int n = 10 * int (n div 10) + int (n mod 10)"
      by (simp only: of_nat_add of_nat_mult of_nat_numeral)
    ultimately show ?thesis by (simp only:)
  qed
qed

lemma minuteDigits_digits: "minuteDigits m \<noteq> [] \<and> list_all isDigit (minuteDigits m)"
  using natDigits_digits [of m] by (simp add: minuteDigits_def isDigit_def)

lemma parseInt_minuteDigits: "parseInt (minuteDigits m) = int m"
proof -
  have "parseInt (CHR ''0'' # ds) = parseInt ds" for ds
    by (simp add: parseInt_def digitVal_def)
  then show ?thesis
    by (simp add: minuteDigits_def parseInt_natDigits)
qed

lemma span_digits:
  assumes "list_all isDigit ds" and "\<not> isDigit c"
  shows "takeWhile isDigit (ds @ c # rest) = ds" and "dropWhile isDigit (ds @ c # rest) = c # rest"
  using assms by (simp_all add: list_all_iff takeWhile_append2 dropWhile_append2)

lemma matchAt_label:
  assumes "g1 \<noteq> []" "list_all isDigit g1" "g2 \<noteq> []" "list_all isDigit g2"
  shows "matchAt (g1 @ '':'' @ g2 @ '' AM'') = Some (g1, g2, Some ''AM'')"
    and "matchAt (g1 @ '':'' @ g2 @ '' PM'') = Some (g1, g2, Some ''PM'')"
proof -
  have colon: "\<not> isDigit CHR '':''" and space: "\<not> isDigit CHR '' ''"
    by (simp_all add: isDigit_def)
  have mer: "meridiem (dropWhile isSpace '' AM'') = Some ''AM''"
    "meridiem (dropWhile isSpace '' PM'') = Some ''PM''"
    by (simp_all add: isSpace_def meridiem_def lowerChar_def)
  show "matchAt (g1 @ '':'' @ g2 @ '' AM'') = Some (g1, g2, Some ''AM'')"
    using assms span_digits [OF assms(2) colon, of "g2 @ '' AM''"]
      span_digits [OF assms(4) space, of "''AM''"] mer
    by (simp add: matchAt_def Let_def)
  show "matchAt (g1 @ '':'' @ g2 @ '' PM'') = Some (g1, g2, Some ''PM'')"
    using assms span_digits [OF assms(2) colon, of "g2 @ '' PM''"]
      span_digits [OF assms(4) space, of "''PM''"] mer
    by (simp add: matchAt_def Let_def)
qed

lemma timeMatch_matchAt: "matchAt s = Some g \<Longrightarrow> timeMatch s = Some g"
  by (cases s) (simp_all add: matchAt_def)

lemma timeMatch_label12:
  "timeMatch (label12 h m x) =
     Some (natDigits h, minuteDigits m, Some (case x of AM \<Rightarrow> ''AM'' | PM \<Rightarrow> ''PM''))"
proof -
  note d1 = natDigits_digits [of h] and d2 = minuteDigits_digits [of m]
  show ?thesis
  proof (cases x)
    case AM
    then show ?thesis
      using matchAt_label(1) [of "natDigits h" "minuteDigits m"] d1 d2
      by (simp add: label12_def timeMatch_matchAt)
  next
    case PM
    then show ?thesis
      using matchAt_label(2) [of "natDigits h" "minuteDigits m"] d1 d2
      by (simp add: label12_def timeMatch_matchAt)
  qed
qed

lemma hourOf_label12:
  "hourOf (natDigits h, minuteDigits m, Some (case x of AM \<Rightarrow> ''AM'' | PM \<Rightarrow> ''PM'')) = hour24 h x"
  "minuteOf (natDigits h, minuteDigits m, Some (case x of AM \<Rightarrow> ''AM'' | PM \<Rightarrow> ''PM'')) = int m"
  by (cases x; simp add: hourOf_def minuteOf_def hour24_def parseInt_natDigits
      parseInt_minuteDigits toLowerCase_def lowerChar_def)+

lemma label_examples:
  "label12 9 0 AM = ''9:00 AM''" "label12 5 0 PM = ''5:00 PM''"
  "label12 10 0 AM = ''10:00 AM''" "label12 10 30 AM = ''10:30 AM''"
  "label12 1 0 AM = ''1:00 AM''" "label12 4 0 AM = ''4:00 AM''"
  by (simp_all add: label12_def minuteDigits_def natDigits.simps)

lemma wall_examples:
  "wallMinutes 9 0 AM = 540" "wallMinutes 5 0 PM = 1020"
  "wallMinutes 10 0 AM = 600" "wallMinutes 10 30 AM = 630"
  "wallMinutes 1 0 AM = 60" "wallMinutes 4 0 AM = 240"
  "hour24 9 AM = 9" "hour24 5 PM = 17" "hour24 10 AM = 10" "hour24 1 AM = 1" "hour24 4 AM = 4"
  by (simp_all add: wallMinutes_def hour24_def)

lemma window_count_minutes:
  assumes "e - s = w * 60000" and "0 \<le> w"
  shows "nat ((e - s) div 900000 + 1) = nat (w div 15) + 1"
proof -
  have "s \<le> e" using assms by simp
  then have "nat ((e - s) div 900000 + 1) = nat ((e - s) div 60000 div 15) + 1"
    by (rule window_count)
  also have "(e - s) div 60000 = w"
    by (simp add: assms(1))
  finally show ?thesis .
qed

text \<open>
  Claim C6, as amended. For a window given by two labels of the form \<open>label12\<close>, both
  anchored by the library, with the end label not before the start label on the clock,
  the anchors as far apart as the labels (no clock change between them) and a viewer zone
  the library knows, the generator yields ((end - start in minutes) / 15) + 1 slots, the
  minutes read from the labels and the quotient rounded down; the instants begin at the
  start anchor, are 900000 milliseconds (15 minutes) apart and strictly increase, and
  \<open>allTimeSlots\<close> yields the same slots for an event with a date. A window from 9:00 AM to
  5:00 PM has 33 slots.
\<close>

theorem C6_slots_counted_from_labels:
  assumes "startTime ev = label12 sh sm sx"
    and "endTime ev = label12 eh em ex"
    and "fromObject lx (tzValue (timezone ev)) d (hour24 sh sx) (int sm) = Some s"
    and "fromObject lx (tzValue (timezone ev)) d (hour24 eh ex) (int em) = Some e"
    and "e - s = (wallMinutes eh em ex - wallMinutes sh sm sx) * 60000"
    and "wallMinutes sh sm sx \<le> wallMinutes eh em ex"
    and "validZone lx u"
  shows "length (generateTimeSlotsForTimezone lx (Some ev) u d) =
           nat ((wallMinutes eh em ex - wallMinutes sh sm sx) div 15) + 1 \<and>
         map slotTimestamp (generateTimeSlotsForTimezone lx (Some ev) u d) =
           map (\<lambda>i. s + 900000 * int i)
             [0..<nat ((wallMinutes eh em ex - wallMinutes sh sm sx) div 15) + 1] \<and>
         sorted_wrt (<) (map slotTimestamp (generateTimeSlotsForTimezone lx (Some ev) u d)) \<and>
         (selectedDates ev \<noteq> [] \<longrightarrow>
            allTimeSlots lx (Some ev) u d = generateTimeSlotsForTimezone lx (Some ev) u d) \<and>
         (sh = 9 \<and> sm = 0 \<and> sx = AM \<and> eh = 5 \<and> em = 0 \<and> ex = PM \<longrightarrow>
            startTime ev = ''9:00 AM'' \<and> endTime ev = ''5:00 PM'' \<and>
            length (generateTimeSlotsForTimezone lx (Some ev) u d) = 33)"
proof -
  let ?slots = "generateTimeSlotsForTimezone lx (Some ev) u d"
  let ?w = "wallMinutes eh em ex - wallMinutes sh sm sx"
  let ?n = "nat (?w div 15) + 1"
  let ?sp = "(natDigits sh, minuteDigits sm, Some (case sx of AM \<Rightarrow> ''AM'' | PM \<Rightarrow> ''PM''))"
  let ?ep = "(natDigits eh, minuteDigits em, Some (case ex of AM \<Rightarrow> ''AM'' | PM \<Rightarrow> ''PM''))"
  have a: "timeMatch (startTime ev) = Some ?sp"
    by (simp only: assms(1) timeMatch_label12)
  have b: "timeMatch (endTime ev) = Some ?ep"
    by (simp only: assms(2) timeMatch_label12)
  have s': "fromObject lx (tzValue (timezone ev)) d (hourOf ?sp) (minuteOf ?sp) = Some s"
    by (simp only: hourOf_label12 assms(3))
  have e': "fromObject lx (tzValue (timezone ev)) d (hourOf ?ep) (minuteOf ?ep) = Some e"
    by (simp only: hourOf_label12 assms(4))
  have gen: "?slots = slotLoop lx \<lparr>ts = s, zone = u\<rparr> \<lparr>ts = e, zone = u\<rparr>"
    using a b s' e' assms(7) by (rule slots_of_window(1))
  have w: "0 \<le> ?w"
    using assms(6) by simp
  have stamps: "map slotTimestamp ?slots = map (\<lambda>i. s + 900000 * int i) [0..<?n]"
    by (simp only: gen slotLoop_timestamps DateTime.select_convs
        window_count_minutes [OF assms(5) w])
  have "length (map slotTimestamp ?slots) = length (map (\<lambda>i. s + 900000 * int i) [0..<?n])"
    by (simp only: stamps)
  then have len: "length ?slots = ?n"
    by (simp only: length_map length_upt diff_zero)
  have sorted: "sorted_wrt (<) (map slotTimestamp ?slots)"
    by (simp only: stamps sorted_steps)
  have all: "selectedDates ev \<noteq> [] \<longrightarrow> allTimeSlots lx (Some ev) u d = ?slots"
    using slots_of_window(2) [OF a b s' e' assms(7)] by (simp only: gen) blast
  have "startTime ev = ''9:00 AM'' \<and> endTime ev = ''5:00 PM'' \<and> length ?slots = 33"
    if "sh = 9 \<and> sm = 0 \<and> sx = AM \<and> eh = 5 \<and> em = 0 \<and> ex = PM"
  proof -
    have "startTime ev = ''9:00 AM''" "endTime ev = ''5:00 PM''"
      using that assms(1,2) by (simp_all only: label_examples)
    moreover have "?n = 33"
      using that by (simp add: wall_examples)
    ultimately show ?thesis
      using len by (simp only:)
  qed
  then have nine_to_five:
    "sh = 9 \<and> sm = 0 \<and> sx = AM \<and> eh = 5 \<and> em = 0 \<and> ex = PM \<longrightarrow>
     startTime ev = ''9:00 AM'' \<and> endTime ev = ''5:00 PM'' \<and> length ?slots = 33"
    by (rule impI)
  from len stamps sorted all nine_to_five show ?thesis
    by (intro conjI)
qed

lemma utc_anchors:
  "fromObject utcLuxon ''UTC'' \<lparr>year = 1970, month = 1, day = 1\<rparr> 9 0 = Some 32400000"
  "fromObject utcLuxon ''UTC'' \<lparr>year = 1970, month = 1, day = 1\<rparr> 17 0 = Some 61200000"
  "fromObject utcLuxon ''UTC'' \<lparr>year = 1970, month = 1, day = 1\<rparr> 10 0 = Some 36000000"
  "fromObject utcLuxon ''UTC'' \<lparr>year = 1970, month = 1, day = 1\<rparr> 10 30 = Some 37800000"
  by (simp_all add: utcLuxon_def daysFromCivil_def)

text \<open>
  The amended claim C6 at the event \<open>limitedEvent\<close>, 9:00 AM to 5:00 PM on 1 January 1970
  in UTC, and at the poll from 10:00 AM to 10:30 AM, whose last slot is at 10:30 AM.
\<close>

theorem C6_labels_witness:
  "startTime limitedEvent = label12 9 0 AM \<and>
   endTime limitedEvent = label12 5 0 PM \<and>
   fromObject utcLuxon (tzValue (timezone limitedEvent)) \<lparr>year = 1970, month = 1, day = 1\<rparr>
     (hour24 9 AM) (int 0) = Some 32400000 \<and>
   fromObject utcLuxon (tzValue (timezone limitedEvent)) \<lparr>year = 1970, month = 1, day = 1\<rparr>
     (hour24 5 PM) (int 0) = Some 61200000 \<and>
   (61200000 :: int) - 32400000 = (wallMinutes 5 0 PM - wallMinutes 9 0 AM) * 60000 \<and>
   wallMinutes 9 0 AM \<le> wallMinutes 5 0 PM \<and>
   validZone utcLuxon ''UTC'' \<and>
   length (generateTimeSlotsForTimezone utcLuxon (Some limitedEvent) ''UTC''
     \<lparr>year = 1970, month = 1, day = 1\<rparr>) = 33 \<and>
   map slotTimestamp (generateTimeSlotsForTimezone utcLuxon (Some limitedEvent) ''UTC''
     \<lparr>year = 1970, month = 1, day = 1\<rparr>) = map (\<lambda>i. 32400000 + 900000 * int i) [0..<33] \<and>
   length (allTimeSlots utcLuxon (Some limitedEvent) ''UTC''
     \<lparr>year = 1970, month = 1, day = 1\<rparr>) = 33 \<and>
   startTime (pollEvent []) = label12 10 0 AM \<and>
   endTime (pollEvent []) = label12 10 30 AM \<and>
   map slotTimestamp (generateTimeSlotsForTimezone utcLuxon (Some (pollEvent [])) ''UTC''
     \<lparr>year = 1970, month = 1, day = 1\<rparr>) = [36000000, 36900000, 37800000]"
proof -
  let ?d = "\<lparr>year = 1970, month = 1, day = 1\<rparr>"
  have ev: "startTime limitedEvent = ''9:00 AM''" "endTime limitedEvent = ''5:00 PM''"
    "tzValue (timezone limitedEvent) = ''UTC''" "selectedDates limitedEvent \<noteq> []"
    by (simp_all add: limitedEvent_def)
  have a: "startTime limitedEvent = label12 9 0 AM"
    by (simp only: ev label_examples)
  have b: "endTime limitedEvent = label12 5 0 PM"
    by (simp only: ev label_examples)
  have s: "fromObject utcLuxon (tzValue (timezone limitedEvent)) ?d (hour24 9 AM) (int 0) =
      Some 32400000"
    by (simp add: ev wall_examples utc_anchors)
  have e: "fromObject utcLuxon (tzValue (timezone limitedEvent)) ?d (hour24 5 PM) (int 0) =
      Some 61200000"
    by (simp add: ev wall_examples utc_anchors)
  have w: "(61200000 :: int) - 32400000 = (wallMinutes 5 0 PM - wallMinutes 9 0 AM) * 60000"
    by (simp add: wall_examples)
  have le: "wallMinutes 9 0 AM \<le> wallMinutes 5 0 PM"
    by (simp add: wall_examples)
  have n: "nat ((wallMinutes 5 0 PM - wallMinutes 9 0 AM) div 15) + 1 = 33"
    by (simp add: wall_examples)
  note inst = C6_slots_counted_from_labels [OF a b s e w le utc_valid]
  let ?slots = "generateTimeSlotsForTimezone utcLuxon (Some limitedEvent) ''UTC'' ?d"
  have len: "length ?slots = 33"
    using inst [THEN conjunct1] by (simp only: n)
  have stamps: "map slotTimestamp ?slots = map (\<lambda>i. 32400000 + 900000 * int i) [0..<33]"
    using inst [THEN conjunct2, THEN conjunct1] by (simp only: n)
  from inst ev(4) have "allTimeSlots utcLuxon (Some limitedEvent) ''UTC'' ?d = ?slots"
    by blast
  with len have all: "length (allTimeSlots utcLuxon (Some limitedEvent) ''UTC'' ?d) = 33"
    by (simp only:)
  have pv: "startTime (pollEvent []) = ''10:00 AM''" "endTime (pollEvent []) = ''10:30 AM''"
    "tzValue (timezone (pollEvent [])) = ''UTC''"
    by (simp_all add: pollEvent_def)
  have pa: "startTime (pollEvent []) = label12 10 0 AM"
    by (simp only: pv label_examples)
  have pb: "endTime (pollEvent []) = label12 10 30 AM"
    by (simp only: pv label_examples)
  have ps: "fromObject utcLuxon (tzValue (timezone (pollEvent []))) ?d (hour24 10 AM) (int 0) =
      Some 36000000"
    by (simp add: pv wall_examples utc_anchors)
  have pe: "fromObject utcLuxon (tzValue (timezone (pollEvent []))) ?d (hour24 10 AM) (int 30) =
      Some 37800000"
    by (simp add: pv wall_examples utc_anchors)
  have pw: "(37800000 :: int) - 36000000 = (wallMinutes 10 30 AM - wallMinutes 10 0 AM) * 60000"
    by (simp add: wall_examples)
  have ple: "wallMinutes 10 0 AM \<le> wallMinutes 10 30 AM"
    by (simp add: wall_examples)
  have pn: "[0..<nat ((wallMinutes 10 30 AM - wallMinutes 10 0 AM) div 15) + 1] = [0, 1, 2]"
    by (simp add: wall_examples upt_rec)
  note pinst = C6_slots_counted_from_labels [OF pa pb ps pe pw ple utc_valid]
  have poll: "map slotTimestamp (generateTimeSlotsForTimezone utcLuxon (Some (pollEvent []))
      ''UTC'' ?d) = [36000000, 36900000, 37800000]"
    using pinst [THEN conjunct2, THEN conjunct1, unfolded pn] by simp
  from a b s e w le utc_valid len stamps all pa pb poll show ?thesis
    by (intro conjI)
qed

lemma ny_anchors:
  "fromObject nyLuxon ''America/New_York'' \<lparr>year = 2024, month = 3, day = 10\<rparr> 1 0 =
     Some 1710050400000"
  "fromObject nyLuxon ''America/New_York'' \<lparr>year = 2024, month = 3, day = 10\<rparr> 4 0 =
     Some 1710057600000"
  "validZone nyLuxon ''America/New_York''"
  by (simp_all add: nyLuxon_def daysFromCivil_def)

lemma parse_clock_change:
  "timeMatch ''1:00 AM'' = Some (''1'', ''00'', Some ''AM'')"
  "timeMatch ''4:00 AM'' = Some (''4'', ''00'', Some ''AM'')"
  "hourOf (''1'', ''00'', Some ''AM'') = 1" "minuteOf (''1'', ''00'', Some ''AM'') = 0"
  "hourOf (''4'', ''00'', Some ''AM'') = 4" "minuteOf (''4'', ''00'', Some ''AM'') = 0"
  by (simp_all add: matchAt_def isDigit_def isSpace_def meridiem_def lowerChar_def hourOf_def
      minuteOf_def parseInt_def digitVal_def toLowerCase_def)

text \<open>
  Claim C6 as stated fails on a day with a clock change: in New York on 10 March 2024 the
  window from 1:00 AM to 4:00 AM lasts two hours, not three, and the generator yields 9
  slots where the labels give (180 / 15) + 1 = 13.
\<close>

theorem C6_clock_change_counterexample:
  "startTime clockChangeEvent = label12 1 0 AM \<and>
   endTime clockChangeEvent = label12 4 0 AM \<and>
   wallMinutes 1 0 AM \<le> wallMinutes 4 0 AM \<and>
   fromObject nyLuxon (tzValue (timezone clockChangeEvent))
     \<lparr>year = 2024, month = 3, day = 10\<rparr> 1 0 = Some 1710050400000 \<and>
   fromObject nyLuxon (tzValue (timezone clockChangeEvent))
     \<lparr>year = 2024, month = 3, day = 10\<rparr> 4 0 = Some 1710057600000 \<and>
   nat ((wallMinutes 4 0 AM - wallMinutes 1 0 AM) div 15) + 1 = 13 \<and>
   length (generateTimeSlotsForTimezone nyLuxon (Some clockChangeEvent) ''America/New_York''
     \<lparr>year = 2024, month = 3, day = 10\<rparr>) = 9 \<and>
   length (generateTimeSlotsForTimezone nyLuxon (Some clockChangeEvent) ''America/New_York''
     \<lparr>year = 2024, month = 3, day = 10\<rparr>) \<noteq>
     nat ((wallMinutes 4 0 AM - wallMinutes 1 0 AM) div 15) + 1"
proof -
  let ?d = "\<lparr>year = 2024, month = 3, day = 10\<rparr>"
  let ?sp = "(''1'', ''00'', Some ''AM'')"
  let ?ep = "(''4'', ''00'', Some ''AM'')"
  have ev: "startTime clockChangeEvent = ''1:00 AM''" "endTime clockChangeEvent = ''4:00 AM''"
    "tzValue (timezone clockChangeEvent) = ''America/New_York''"
    by (simp_all add: clockChangeEvent_def)
  have a: "startTime clockChangeEvent = label12 1 0 AM"
    by (simp only: ev label_examples)
  have b: "endTime clockChangeEvent = label12 4 0 AM"
    by (simp only: ev label_examples)
  have ta: "timeMatch (startTime clockChangeEvent) = Some ?sp"
    by (simp only: ev parse_clock_change)
  have tb: "timeMatch (endTime clockChangeEvent) = Some ?ep"
    by (simp only: ev parse_clock_change)
  note hs = parse_clock_change(3-6)
  have s: "fromObject nyLuxon (tzValue (timezone clockChangeEvent)) ?d 1 0 = Some 1710050400000"
    by (simp only: ev ny_anchors)
  have e: "fromObject nyLuxon (tzValue (timezone clockChangeEvent)) ?d 4 0 = Some 1710057600000"
    by (simp only: ev ny_anchors)
  have s': "fromObject nyLuxon (tzValue (timezone clockChangeEvent)) ?d (hourOf ?sp) (minuteOf ?sp)
      = Some 1710050400000"
    by (simp only: hs s)
  have e': "fromObject nyLuxon (tzValue (timezone clockChangeEvent)) ?d (hourOf ?ep) (minuteOf ?ep)
      = Some 1710057600000"
    by (simp only: hs e)
  let ?slots = "generateTimeSlotsForTimezone nyLuxon (Some clockChangeEvent)
      ''America/New_York'' ?d"
  have gen: "?slots = slotLoop nyLuxon \<lparr>ts = 1710050400000, zone = ''America/New_York''\<rparr>
      \<lparr>ts = 1710057600000, zone = ''America/New_York''\<rparr>"
    using ta tb s' e' ny_anchors(3) by (rule slots_of_window(1))
  have "length (map slotTimestamp ?slots) = 9"
    by (simp only: gen slotLoop_timestamps) simp
  then have len: "length ?slots = 9"
    by simp
  have le: "wallMinutes 1 0 AM \<le> wallMinutes 4 0 AM"
    by (simp only: wall_examples, simp?)
  have n: "nat ((wallMinutes 4 0 AM - wallMinutes 1 0 AM) div 15) + 1 = 13"
    by (simp only: wall_examples, simp?)
  have ne: "length ?slots \<noteq> nat ((wallMinutes 4 0 AM - wallMinutes 1 0 AM) div 15) + 1"
    by (simp only: len n, simp?)
  from a b le s e n len ne show ?thesis
    by (intro conjI)
qed

lemma parse_night:
  "timeMatch ''10:00 PM'' = Some (''10'', ''00'', Some ''PM'')"
  "timeMatch ''2:00 AM'' = Some (''2'', ''00'', Some ''AM'')"
  by (simp_all add: matchAt_def isDigit_def isSpace_def meridiem_def lowerChar_def)

lemma anchors_night:
  "anchor utcLuxon ''UTC'' \<lparr>year = 1970, month = 1, day = 1\<rparr> (''10'', ''00'', Some ''PM'') =
     Some \<lparr>ts = 79200000, zone = ''UTC''\<rparr>"
  "anchor utcLuxon ''UTC'' \<lparr>year = 1970, month = 1, day = 1\<rparr> (''2'', ''00'', Some ''AM'') =
     Some \<lparr>ts = 7200000, zone = ''UTC''\<rparr>"
  by (simp_all add: anchor_def utcLuxon_def hourOf_def minuteOf_def parseInt_def digitVal_def
      toLowerCase_def lowerChar_def daysFromCivil_def)

text \<open>Whenever the end is anchored before the start, neither generator yields a slot.\<close>

lemma setZone_unknown: "\<not> validZone lx u \<Longrightarrow> Option.bind x (setZone lx u) = None"
  by (cases x) (simp_all add: setZone_def)

text \<open>A viewer zone the library does not know gives no slot.\<close>

lemma no_slots_for_unknown_viewer_zone:
  "\<not> validZone lx u \<Longrightarrow> generateTimeSlotsForTimezone lx (Some ev) u d = []"
  "\<not> validZone lx u \<Longrightarrow> allTimeSlots lx (Some ev) u d = []"
  by (simp_all add: generateTimeSlotsForTimezone_def allTimeSlots_def setZone_unknown
      slotsBetween_def Let_def split: option.splits prod.splits)

lemma no_slots_when_end_before_start:
  assumes "timeMatch (startTime ev) = Some sp"
    and "timeMatch (endTime ev) = Some ep"
    and "fromObject lx (tzValue (timezone ev)) d (hourOf sp) (minuteOf sp) = Some s"
    and "fromObject lx (tzValue (timezone ev)) d (hourOf ep) (minuteOf ep) = Some e"
    and "e < s"
  shows "generateTimeSlotsForTimezone lx (Some ev) u d = []"
    and "allTimeSlots lx (Some ev) u d = []"
proof -
  have loop: "slotLoop lx \<lparr>ts = s, zone = u\<rparr> \<lparr>ts = e, zone = u\<rparr> = []"
    using assms(5) by (simp add: slotLoop_empty)
  show "generateTimeSlotsForTimezone lx (Some ev) u d = []"
  proof (cases "validZone lx u")
    case True
    then show ?thesis
      using slots_of_window(1) [OF assms(1-4)] loop by simp
  next
    case False
    then show ?thesis by (rule no_slots_for_unknown_viewer_zone)
  qed
  show "allTimeSlots lx (Some ev) u d = []"
  proof (cases "validZone lx u")
    case True
    show ?thesis
    proof (cases "selectedDates ev = []")
      case True
      then show ?thesis by (simp add: allTimeSlots_def)
    next
      case False
      then show ?thesis
        using slots_of_window(2) [OF assms(1-4) \<open>validZone lx u\<close>] loop by simp
    qed
  next
    case False
    then show ?thesis by (rule no_slots_for_unknown_viewer_zone)
  qed
qed

text \<open>
  Claim C2. When the end of the window is not after its start, the generator is to treat
  the window as running into the next day and yield slots. \<open>allTimeSlots\<close> computes the
  end one day later and drops it, and \<open>generateTimeSlotsForTimezone\<close> has no such step:
  for the window from 10:00 PM to 2:00 AM both yield no slot at all.
\<close>

theorem C2_no_slots_for_night_window:
  "anchor utcLuxon ''UTC'' \<lparr>year = 1970, month = 1, day = 1\<rparr> (''10'', ''00'', Some ''PM'') =
     Some \<lparr>ts = 79200000, zone = ''UTC''\<rparr> \<and>
   anchor utcLuxon ''UTC'' \<lparr>year = 1970, month = 1, day = 1\<rparr> (''2'', ''00'', Some ''AM'') =
     Some \<lparr>ts = 7200000, zone = ''UTC''\<rparr> \<and>
   allTimeSlots utcLuxon (Some nightEvent) ''UTC'' \<lparr>year = 1970, month = 1, day = 1\<rparr> = [] \<and>
   generateTimeSlotsForTimezone utcLuxon (Some nightEvent) ''UTC''
     \<lparr>year = 1970, month = 1, day = 1\<rparr> = []"
proof -
  have ev: "startTime nightEvent = ''10:00 PM''" "endTime nightEvent = ''2:00 AM''"
    "tzValue (timezone nightEvent) = ''UTC''" "selectedDates nightEvent \<noteq> []"
    by (simp_all add: nightEvent_def)
  show ?thesis
    by (simp add: allTimeSlots_def generateTimeSlotsForTimezone_def ev parse_night
        anchors_night setZone_def utc_valid slotsBetween_def slotLoop_empty
        del: timeMatch.simps)
qed

section \<open>Aggregation: results\<close>

lemma classes_distinct:
  "distinct [classNone, classLow, classMedium, classHigh, classFull]"
  by (simp add: classNone_def classLow_def classMedium_def classHigh_def classFull_def)

lemma length_details:
  "eventData st = Some ev \<Longrightarrow>
   length (getAvailabilityDetails now st d t) =
     length (filter (availableAt d t) (filteredResponses st ev))"
  by (simp add: getAvailabilityDetails_def)

lemma length_details_le:
  "eventData st = Some ev \<Longrightarrow> length (getAvailabilityDetails now st d t) \<le> length (responses ev)"
  by (simp add: length_details filteredResponses_def le_trans [OF length_filter_le length_filter_le])

lemma percentageColor_cases:
  fixes c t :: nat
  defines "ratio \<equiv> (of_nat c / of_nat t :: rat)"
  shows "t = 0 \<Longrightarrow> percentageColor c t = classNone"
    and "t \<noteq> 0 \<Longrightarrow> ratio = 0 \<Longrightarrow> percentageColor c t = classNone"
    and "t \<noteq> 0 \<Longrightarrow> 0 < ratio \<Longrightarrow> ratio < 1 / 2 \<Longrightarrow> percentageColor c t = classLow"
    and "t \<noteq> 0 \<Longrightarrow> 1 / 2 \<le> ratio \<Longrightarrow> ratio < 3 / 4 \<Longrightarrow> percentageColor c t = classMedium"
    and "t \<noteq> 0 \<Longrightarrow> 3 / 4 \<le> ratio \<Longrightarrow> ratio < 1 \<Longrightarrow> percentageColor c t = classHigh"
    and "t \<noteq> 0 \<Longrightarrow> ratio = 1 \<Longrightarrow> percentageColor c t = classFull"
  unfolding ratio_def percentageColor_def Let_def by (auto simp: field_simps)

lemma percentageColor_buckets:
  "(t = 0 \<longrightarrow> percentageColor c t = classNone) \<and>
   (t \<noteq> 0 \<and> (of_nat c / of_nat t :: rat) = 0 \<longrightarrow> percentageColor c t = classNone) \<and>
   (t \<noteq> 0 \<and> 0 < (of_nat c / of_nat t :: rat) \<and> (of_nat c / of_nat t :: rat) < 1 / 2 \<longrightarrow>
      percentageColor c t = classLow) \<and>
   (t \<noteq> 0 \<and> 1 / 2 \<le> (of_nat c / of_nat t :: rat) \<and> (of_nat c / of_nat t :: rat) < 3 / 4 \<longrightarrow>
      percentageColor c t = classMedium) \<and>
   (t \<noteq> 0 \<and> 3 / 4 \<le> (of_nat c / of_nat t :: rat) \<and> (of_nat c / of_nat t :: rat) < 1 \<longrightarrow>
      percentageColor c t = classHigh) \<and>
   (t \<noteq> 0 \<and> (of_nat c / of_nat t :: rat) = 1 \<longrightarrow> percentageColor c t = classFull) \<and>
   (c = 1 \<and> t = 2 \<longrightarrow> percentageColor c t = classMedium \<and> percentageColor c t \<noteq> classLow)"
proof -
  have half: "percentageColor 1 2 = classMedium"
    by (rule percentageColor_cases(4)) simp_all
  have "classMedium \<noteq> classLow"
    using classes_distinct by auto
  with half have particular:
    "c = 1 \<and> t = 2 \<longrightarrow> percentageColor c t = classMedium \<and> percentageColor c t \<noteq> classLow"
    by auto
  from percentageColor_cases [of t c] particular show ?thesis
    by (intro conjI) blast+
qed


lemma slot_keys:
  "numToString 36000000 = ''36000000''" "numToString 36900000 = ''36900000''"
  "numToString 37800000 = ''37800000''"
  by (simp_all add: numToString_def natDigits.simps)

lemma poll_counts:
  "length (getAvailabilityDetails now (pollState [ann, bob] []) ''1970-01-01'' ''36000000'') = 1"
  "length (getAvailabilityDetails now (pollState [ann, bob, cy, dee] []) ''1970-01-01'' ''36000000'') = 1"
  "length (getAvailabilityDetails now (pollState [ann, bob, cy, dee] []) ''1970-01-01'' ''36900000'') = 3"
  "length (getAvailabilityDetails now (pollState [ann, bob, cy, dee] [(''Ann'', True)])
     ''1970-01-01'' ''36000000'') = 1"
  "length (getAvailabilityDetails now (pollState [ann, bob, cy, dee] [(''Dee'', True)])
     ''1970-01-01'' ''36000000'') = 0"
  "length (getAvailabilityDetails now (pollState [] []) ''1970-01-01'' ''36000000'') = 0"
  by (simp_all add: getAvailabilityDetails_def pollState_def pollEvent_def filteredResponses_def
      hasSelectedUsers_def isSelected_def objectPrototypeKeys_def availableAt_def
      ann_def bob_def cy_def dee_def)



lemma availabilityMap_le:
  "s \<in> set (availabilityMap lx now st d) \<Longrightarrow> saAvailable s \<le> saTotal s"
  by (cases "eventData st") (auto simp: availabilityMap_def length_details_le)

lemma majority_iff:
  "saAvailable s \<le> saTotal s \<Longrightarrow>
   majority s \<longleftrightarrow> saTotal s \<noteq> 0 \<and> (of_nat (saAvailable s) / of_nat (saTotal s) :: rat) \<ge> 51 / 100"
  by (auto simp: majority_def)

text \<open>
  Claim C8. A slot of the availability map is among the best slots if and only if its
  total is not zero and its ratio available / total is at least 0.51. A slot with 1
  available out of 2 is left out; a slot of the map with 2 available out of 3 is kept.
\<close>

theorem C8_best_times_threshold:
  "(s \<in> set (bestSlots lx now st d) \<longleftrightarrow>
      s \<in> set (availabilityMap lx now st d) \<and> saTotal s \<noteq> 0 \<and>
      (of_nat (saAvailable s) / of_nat (saTotal s) :: rat) \<ge> 51 / 100) \<and>
   (saAvailable s = 1 \<and> saTotal s = 2 \<longrightarrow> s \<notin> set (bestSlots lx now st d)) \<and>
   (s \<in> set (availabilityMap lx now st d) \<and> saAvailable s = 2 \<and> saTotal s = 3 \<longrightarrow>
      s \<in> set (bestSlots lx now st d))"
proof -
  have iff: "s \<in> set (bestSlots lx now st d) \<longleftrightarrow>
      s \<in> set (availabilityMap lx now st d) \<and> saTotal s \<noteq> 0 \<and>
      (of_nat (saAvailable s) / of_nat (saTotal s) :: rat) \<ge> 51 / 100"
    using availabilityMap_le [of s lx now st d] majority_iff [of s]
    by (auto simp: bestSlots_def)
  have half: "saAvailable s = 1 \<and> saTotal s = 2 \<longrightarrow> s \<notin> set (bestSlots lx now st d)"
    by (simp add: iff)
  have two_thirds: "s \<in> set (availabilityMap lx now st d) \<and> saAvailable s = 2 \<and> saTotal s = 3 \<longrightarrow>
      s \<in> set (bestSlots lx now st d)"
    by (simp add: iff)
  from iff half two_thirds show ?thesis
    by (intro conjI)
qed

lemma utc_labels:
  "utcFormat 36000000 = ''10:00 AM''" "utcFormat 36900000 = ''10:15 AM''"
  "utcFormat 37800000 = ''10:30 AM''"
  by (simp_all add: utcFormat_def numToString_def pad2_def natDigits.simps)

lemma parse_poll:
  "timeMatch ''10:00 AM'' = Some (''10'', ''00'', Some ''AM'')"
  "timeMatch ''10:30 AM'' = Some (''10'', ''30'', Some ''AM'')"
  "hourOf (''10'', ''00'', Some ''AM'') = 10" "minuteOf (''10'', ''00'', Some ''AM'') = 0"
  "hourOf (''10'', ''30'', Some ''AM'') = 10" "minuteOf (''10'', ''30'', Some ''AM'') = 30"
  by (simp_all add: matchAt_def isDigit_def isSpace_def meridiem_def lowerChar_def hourOf_def
      minuteOf_def parseInt_def digitVal_def toLowerCase_def)

lemma poll_slots:
  "generateTimeSlotsForTimezone utcLuxon (Some (pollEvent rs)) ''UTC''
     \<lparr>year = 1970, month = 1, day = 1\<rparr> =
   [\<lparr>slotTimestamp = 36000000, slotTime = ''10:00 AM'', selected = False\<rparr>,
    \<lparr>slotTimestamp = 36900000, slotTime = ''10:15 AM'', selected = False\<rparr>,
    \<lparr>slotTimestamp = 37800000, slotTime = ''10:30 AM'', selected = False\<rparr>]"
proof -
  let ?d = "\<lparr>year = 1970, month = 1, day = 1\<rparr>"
  have ev: "startTime (pollEvent rs) = ''10:00 AM''" "endTime (pollEvent rs) = ''10:30 AM''"
    "tzValue (timezone (pollEvent rs)) = ''UTC''"
    by (simp_all add: pollEvent_def)
  have a: "timeMatch (startTime (pollEvent rs)) = Some (''10'', ''00'', Some ''AM'')"
    by (simp only: ev parse_poll)
  have b: "timeMatch (endTime (pollEvent rs)) = Some (''10'', ''30'', Some ''AM'')"
    by (simp only: ev parse_poll)
  have s: "fromObject utcLuxon (tzValue (timezone (pollEvent rs))) ?d
      (hourOf (''10'', ''00'', Some ''AM'')) (minuteOf (''10'', ''00'', Some ''AM'')) = Some 36000000"
    by (simp add: ev parse_poll utcLuxon_def daysFromCivil_def)
  have e: "fromObject utcLuxon (tzValue (timezone (pollEvent rs))) ?d
      (hourOf (''10'', ''30'', Some ''AM'')) (minuteOf (''10'', ''30'', Some ''AM'')) = Some 37800000"
    by (simp add: ev parse_poll utcLuxon_def daysFromCivil_def)
  have fmt: "toFormat utcLuxon z t = utcFormat t" for z t
    by (simp add: utcLuxon_def)
  show ?thesis
    by (simp add: slots_of_window(1) [OF a b s e utc_valid] slotLoop.simps plusMinutes_def fmt utc_labels)
qed

lemma poll_date: "formatDate \<lparr>year = 1970, month = 1, day = 1\<rparr> = ''1970-01-01''"
  by (simp add: formatDate_def numToString_def pad2_def natDigits.simps)

lemma poll_counts_more:
  "length (getAvailabilityDetails now (pollState [ann, bob] []) ''1970-01-01'' ''36900000'') = 2"
  "length (getAvailabilityDetails now (pollState [ann, bob] []) ''1970-01-01'' ''37800000'') = 0"
  "length (getAvailabilityDetails now (pollState [ann, bob, dee] []) ''1970-01-01'' ''36000000'') = 1"
  "length (getAvailabilityDetails now (pollState [ann, bob, dee] []) ''1970-01-01'' ''36900000'') = 2"
  "length (getAvailabilityDetails now (pollState [ann, bob, dee] []) ''1970-01-01'' ''37800000'') = 0"
  "length (getAvailabilityDetails now (pollState [ann, bob, cy, dee] [(''Ann'', True)])
     ''1970-01-01'' ''36900000'') = 1"
  "length (getAvailabilityDetails now (pollState [ann, bob, cy, dee] [(''Ann'', True)])
     ''1970-01-01'' ''37800000'') = 0"
  by (simp_all add: getAvailabilityDetails_def pollState_def pollEvent_def filteredResponses_def
      hasSelectedUsers_def isSelected_def objectPrototypeKeys_def availableAt_def
      ann_def bob_def cy_def dee_def)

lemma poll_map:
  "availabilityMap utcLuxon now (pollState rs sel) \<lparr>year = 1970, month = 1, day = 1\<rparr> =
     map (\<lambda>slot.
       \<lparr>saTimestamp = slotTimestamp slot, saTime = slotTime slot,
        saAvailable = length (getAvailabilityDetails now (pollState rs sel) ''1970-01-01''
          (numToString (slotTimestamp slot))),
        saTotal = length rs\<rparr>)
     [\<lparr>slotTimestamp = 36000000, slotTime = ''10:00 AM'', selected = False\<rparr>,
      \<lparr>slotTimestamp = 36900000, slotTime = ''10:15 AM'', selected = False\<rparr>,
      \<lparr>slotTimestamp = 37800000, slotTime = ''10:30 AM'', selected = False\<rparr>]"
proof -
  have st: "eventData (pollState rs sel) = Some (pollEvent rs)"
    "userTimezone (pollState rs sel) = ''UTC''" "responses (pollEvent rs) = rs"
    by (simp_all add: pollState_def pollEvent_def)
  show ?thesis
    unfolding availabilityMap_def st option.case poll_slots poll_date ..
qed

text \<open>
  Claim C8 on the example poll: with Ann and Bob the slot at 10:00 AM has 1 of 2 and is
  not a best slot; with Ann, Bob and Dee the slot at 10:15 AM has 2 of 3 and is one.
\<close>

theorem C8_best_times_witness:
  "\<lparr>saTimestamp = 36000000, saTime = ''10:00 AM'', saAvailable = 1, saTotal = 2\<rparr>
     \<in> set (availabilityMap utcLuxon ''now'' (pollState [ann, bob] [])
           \<lparr>year = 1970, month = 1, day = 1\<rparr>) \<and>
   \<lparr>saTimestamp = 36000000, saTime = ''10:00 AM'', saAvailable = 1, saTotal = 2\<rparr>
     \<notin> set (bestSlots utcLuxon ''now'' (pollState [ann, bob] [])
           \<lparr>year = 1970, month = 1, day = 1\<rparr>) \<and>
   \<lparr>saTimestamp = 36900000, saTime = ''10:15 AM'', saAvailable = 2, saTotal = 3\<rparr>
     \<in> set (availabilityMap utcLuxon ''now'' (pollState [ann, bob, dee] [])
           \<lparr>year = 1970, month = 1, day = 1\<rparr>) \<and>
   \<lparr>saTimestamp = 36900000, saTime = ''10:15 AM'', saAvailable = 2, saTotal = 3\<rparr>
     \<in> set (bestSlots utcLuxon ''now'' (pollState [ann, bob, dee] [])
           \<lparr>year = 1970, month = 1, day = 1\<rparr>)"
proof -
  let ?d = "\<lparr>year = 1970, month = 1, day = 1\<rparr>"
  let ?half = "\<lparr>saTimestamp = 36000000, saTime = ''10:00 AM'', saAvailable = 1, saTotal = 2\<rparr>"
  let ?most = "\<lparr>saTimestamp = 36900000, saTime = ''10:15 AM'', saAvailable = 2, saTotal = 3\<rparr>"
  have a: "?half \<in> set (availabilityMap utcLuxon ''now'' (pollState [ann, bob] []) ?d)"
    by (simp add: poll_map slot_keys poll_counts poll_counts_more)
  have b: "?most \<in> set (availabilityMap utcLuxon ''now'' (pollState [ann, bob, dee] []) ?d)"
    by (simp add: poll_map slot_keys poll_counts poll_counts_more)
  have na: "?half \<notin> set (bestSlots utcLuxon ''now'' (pollState [ann, bob] []) ?d)"
    using C8_best_times_threshold [of ?half utcLuxon "''now''" "pollState [ann, bob] []" ?d]
    by simp
  have nb: "?most \<in> set (bestSlots utcLuxon ''now'' (pollState [ann, bob, dee] []) ?d)"
    using C8_best_times_threshold [of ?most utcLuxon "''now''" "pollState [ann, bob, dee] []" ?d] b
    by simp
  from a na b nb show ?thesis
    by (intro conjI)
qed

text \<open>A name that is a key of \<^verbatim>\<open>selectedUsers\<close>, or that no object inherits, is
  selected exactly when its flag is set.\<close>

lemma isSelected_own:
  "key \<in> fst ` set (selectedUsers st) \<Longrightarrow>
   isSelected st key \<longleftrightarrow> map_of (selectedUsers st) key = Some True"
  by (cases "map_of (selectedUsers st) key") (auto simp: isSelected_def map_of_eq_None_iff)

lemma isSelected_plain_name:
  "key \<notin> set objectPrototypeKeys \<Longrightarrow>
   isSelected st key \<longleftrightarrow> map_of (selectedUsers st) key = Some True"
  by (cases "map_of (selectedUsers st) key") (auto simp: isSelected_def)

lemma selectedKeys_own:
  "selectedKeys st =
     filter (\<lambda>key. map_of (selectedUsers st) key = Some True) (map fst (selectedUsers st))"
  unfolding selectedKeys_def by (rule filter_cong) (auto simp: isSelected_own)

lemma selectedKeys_distinct:
  assumes "distinct (map fst (selectedUsers st))"
  shows "selectedKeys st = map fst (filter snd (selectedUsers st))"
proof -
  have "map_of (selectedUsers st) (fst x) = Some True \<longleftrightarrow> snd x"
    if "x \<in> set (selectedUsers st)" for x
  proof -
    have "map_of (selectedUsers st) (fst x) = Some (snd x)"
      using assms that by (intro map_of_is_SomeI) simp_all
    then show ?thesis by simp
  qed
  then have "filter ((\<lambda>key. map_of (selectedUsers st) key = Some True) \<circ> fst) (selectedUsers st)
      = filter snd (selectedUsers st)"
    by (intro filter_cong) simp_all
  then show ?thesis
    by (simp add: selectedKeys_own filter_map)
qed

text \<open>
  The number of selected names is the number of selected responses when every name is
  there once and every selected name belongs to a response.
\<close>

lemma selected_subset_size:
  assumes "distinct (map fst (selectedUsers st))"
    and "distinct (map name rs)"
    and "set (selectedKeys st) \<subseteq> name ` set rs"
  shows "length (selectedKeys st) =
           length (filter (\<lambda>r. map_of (selectedUsers st) (name r) = Some True) rs)"
proof -
  let ?subset = "filter (\<lambda>r. map_of (selectedUsers st) (name r) = Some True) rs"
  have keys: "distinct (selectedKeys st)"
    using assms(1) by (simp add: selectedKeys_def)
  have names: "distinct (map name ?subset)"
    using assms(2) by (simp add: distinct_map_filter)
  have "set (selectedKeys st) = set (map name ?subset)"
  proof (intro equalityI subsetI)
    fix k assume k: "k \<in> set (selectedKeys st)"
    then have "map_of (selectedUsers st) k = Some True" by (simp add: selectedKeys_own)
    moreover from k assms(3) obtain r where "r \<in> set rs" "k = name r" by auto
    ultimately show "k \<in> set (map name ?subset)" by auto
  next
    fix k assume "k \<in> set (map name ?subset)"
    then obtain r where r: "r \<in> set rs" "map_of (selectedUsers st) (name r) = Some True"
      "k = name r" by auto
    then have "(k, True) \<in> set (selectedUsers st)" by (simp add: map_of_SomeD)
    then have "k \<in> fst ` set (selectedUsers st)" by force
    with r show "k \<in> set (selectedKeys st)" by (simp add: selectedKeys_own)
  qed
  then have "card (set (selectedKeys st)) = card (set (map name ?subset))"
    by simp
  then show ?thesis
    using keys names by (simp only: distinct_card length_map)
qed

lemma availabilityMap_total:
  "eventData st = Some ev \<Longrightarrow> sa \<in> set (availabilityMap lx now st d) \<Longrightarrow>
   saTotal sa = length (responses ev)"
  by (auto simp: availabilityMap_def)

text \<open>
  Claim C10, as amended. Some name is selected and no response is named like a property
  that every object inherits. Then the availability map of the best times counts, for
  each slot, the available responses among those with a selected name only, its total is
  the number of all responses of the event, and a slot is a best slot exactly when that
  count divided by the number of all responses is at least 0.51. The colour of the
  everyone view is the bucket of the same count divided by the number of selected names;
  that number is the number of keys whose flag is set, and it is the size of the selected
  subset when the names of the responses are unique and every selected name belongs to a
  response.
\<close>

theorem C10_selected_count_and_denominators:
  assumes "eventData st = Some ev"
    and "hasSelectedUsers st"
    and "\<forall>r \<in> set (responses ev). name r \<notin> set objectPrototypeKeys"
  shows
    "let subset = filter (\<lambda>r. map_of (selectedUsers st) (name r) = Some True) (responses ev);
         slots = generateTimeSlotsForTimezone lx (Some ev) (userTimezone st) d;
         count = length (filter (availableAt k (numToString t)) subset);
         names = length (selectedKeys st);
         ratio = (of_nat count / of_nat names :: rat);
         color = getTimeSlotColor now st k t
     in map saAvailable (availabilityMap lx now st d) =
          map (\<lambda>slot. length (filter
                 (availableAt (formatDate d) (numToString (slotTimestamp slot))) subset)) slots \<and>
        map saTotal (availabilityMap lx now st d) = map (\<lambda>slot. length (responses ev)) slots \<and>
        (sa \<in> set (bestSlots lx now st d) \<longleftrightarrow>
           sa \<in> set (availabilityMap lx now st d) \<and> responses ev \<noteq> [] \<and>
           (of_nat (saAvailable sa) / of_nat (length (responses ev)) :: rat) \<ge> 51 / 100) \<and>
        (viewMode st = everyone \<longrightarrow>
           (names = 0 \<longrightarrow> color = classNone) \<and>
           (names \<noteq> 0 \<and> ratio = 0 \<longrightarrow> color = classNone) \<and>
           (names \<noteq> 0 \<and> 0 < ratio \<and> ratio < 1 / 2 \<longrightarrow> color = classLow) \<and>
           (names \<noteq> 0 \<and> 1 / 2 \<le> ratio \<and> ratio < 3 / 4 \<longrightarrow> color = classMedium) \<and>
           (names \<noteq> 0 \<and> 3 / 4 \<le> ratio \<and> ratio < 1 \<longrightarrow> color = classHigh) \<and>
           (names \<noteq> 0 \<and> ratio = 1 \<longrightarrow> color = classFull)) \<and>
        (distinct (map fst (selectedUsers st)) \<longrightarrow>
           selectedKeys st = map fst (filter snd (selectedUsers st))) \<and>
        (distinct (map fst (selectedUsers st)) \<and> distinct (map name (responses ev)) \<and>
         set (selectedKeys st) \<subseteq> name ` set (responses ev) \<longrightarrow>
           names = length subset)"
proof -
  let ?subset = "filter (\<lambda>r. map_of (selectedUsers st) (name r) = Some True) (responses ev)"
  let ?slots = "generateTimeSlotsForTimezone lx (Some ev) (userTimezone st) d"
  let ?count = "length (filter (availableAt k (numToString t)) ?subset)"
  let ?names = "length (selectedKeys st)"
  have filt: "filter (\<lambda>r. isSelected st (name r)) (responses ev) = ?subset"
    using assms(3) by (intro filter_cong) (simp_all add: isSelected_plain_name)
  have details: "length (getAvailabilityDetails now st x y) =
      length (filter (availableAt x y) ?subset)" for x y
    using assms(1,2) by (simp add: length_details filteredResponses_def filt)
  have avail: "map saAvailable (availabilityMap lx now st d) =
      map (\<lambda>slot. length (filter
             (availableAt (formatDate d) (numToString (slotTimestamp slot))) ?subset)) ?slots"
    using assms(1) by (simp add: availabilityMap_def details comp_def)
  have total: "map saTotal (availabilityMap lx now st d) =
      map (\<lambda>slot. length (responses ev)) ?slots"
    using assms(1) by (simp add: availabilityMap_def comp_def)
  have best: "sa \<in> set (bestSlots lx now st d) \<longleftrightarrow>
      sa \<in> set (availabilityMap lx now st d) \<and> responses ev \<noteq> [] \<and>
      (of_nat (saAvailable sa) / of_nat (length (responses ev)) :: rat) \<ge> 51 / 100"
  proof (cases "sa \<in> set (availabilityMap lx now st d)")
    case True
    then have "saTotal sa = length (responses ev)"
      using assms(1) by (rule availabilityMap_total [rotated])
    moreover from True have "saAvailable sa \<le> saTotal sa"
      by (rule availabilityMap_le)
    ultimately show ?thesis
      using True majority_iff [of sa] by (simp add: bestSlots_def)
  next
    case False
    then show ?thesis by (simp add: bestSlots_def)
  qed
  have color: "getTimeSlotColor now st k t = percentageColor ?count ?names"
    if "viewMode st = everyone"
    using assms(1,2) that by (simp add: getTimeSlotColor_def details)
  have buckets: "viewMode st = everyone \<longrightarrow>
      (?names = 0 \<longrightarrow> getTimeSlotColor now st k t = classNone) \<and>
      (?names \<noteq> 0 \<and> (of_nat ?count / of_nat ?names :: rat) = 0 \<longrightarrow>
         getTimeSlotColor now st k t = classNone) \<and>
      (?names \<noteq> 0 \<and> 0 < (of_nat ?count / of_nat ?names :: rat) \<and>
         (of_nat ?count / of_nat ?names :: rat) < 1 / 2 \<longrightarrow>
         getTimeSlotColor now st k t = classLow) \<and>
      (?names \<noteq> 0 \<and> 1 / 2 \<le> (of_nat ?count / of_nat ?names :: rat) \<and>
         (of_nat ?count / of_nat ?names :: rat) < 3 / 4 \<longrightarrow>
         getTimeSlotColor now st k t = classMedium) \<and>
      (?names \<noteq> 0 \<and> 3 / 4 \<le> (of_nat ?count / of_nat ?names :: rat) \<and>
         (of_nat ?count / of_nat ?names :: rat) < 1 \<longrightarrow>
         getTimeSlotColor now st k t = classHigh) \<and>
      (?names \<noteq> 0 \<and> (of_nat ?count / of_nat ?names :: rat) = 1 \<longrightarrow>
         getTimeSlotColor now st k t = classFull)"
  proof
    assume "viewMode st = everyone"
    then show "(?names = 0 \<longrightarrow> getTimeSlotColor now st k t = classNone) \<and>
      (?names \<noteq> 0 \<and> (of_nat ?count / of_nat ?names :: rat) = 0 \<longrightarrow>
         getTimeSlotColor now st k t = classNone) \<and>
      (?names \<noteq> 0 \<and> 0 < (of_nat ?count / of_nat ?names :: rat) \<and>
         (of_nat ?count / of_nat ?names :: rat) < 1 / 2 \<longrightarrow>
         getTimeSlotColor now st k t = classLow) \<and>
      (?names \<noteq> 0 \<and> 1 / 2 \<le> (of_nat ?count / of_nat ?names :: rat) \<and>
         (of_nat ?count / of_nat ?names :: rat) < 3 / 4 \<longrightarrow>
         getTimeSlotColor now st k t = classMedium) \<and>
      (?names \<noteq> 0 \<and> 3 / 4 \<le> (of_nat ?count / of_nat ?names :: rat) \<and>
         (of_nat ?count / of_nat ?names :: rat) < 1 \<longrightarrow>
         getTimeSlotColor now st k t = classHigh) \<and>
      (?names \<noteq> 0 \<and> (of_nat ?count / of_nat ?names :: rat) = 1 \<longrightarrow>
         getTimeSlotColor now st k t = classFull)"
      using percentageColor_buckets [of ?names ?count] by (simp only: color) blast
  qed
  have keys: "distinct (map fst (selectedUsers st)) \<longrightarrow>
      selectedKeys st = map fst (filter snd (selectedUsers st))"
    using selectedKeys_distinct by blast
  have size: "distinct (map fst (selectedUsers st)) \<and> distinct (map name (responses ev)) \<and>
      set (selectedKeys st) \<subseteq> name ` set (responses ev) \<longrightarrow> ?names = length ?subset"
    using selected_subset_size [of st "responses ev"] by blast
  from avail total best buckets keys size show ?thesis
    unfolding Let_def by (intro conjI)
qed

lemma pollState_fields:
  "eventData (pollState rs sl) = Some (pollEvent rs)" "viewMode (pollState rs sl) = everyone"
  "userTimezone (pollState rs sl) = ''UTC''" "selectedUsers (pollState rs sl) = sl"
  "responses (pollEvent rs) = rs"
  by (simp_all add: pollState_def pollEvent_def)

lemma poll_names:
  "name ann = ''Ann''" "name bob = ''Bob''" "name cy = ''Cy''" "name dee = ''Dee''"
  "name ctor = ''constructor''"
  by (simp_all add: ann_def bob_def cy_def dee_def ctor_def)

lemma poll_available:
  "availableAt ''1970-01-01'' ''36000000'' ann" "availableAt ''1970-01-01'' ''36900000'' ann"
  "\<not> availableAt ''1970-01-01'' ''37800000'' ann"
  "\<not> availableAt ''1970-01-01'' ''36000000'' bob"
  "availableAt ''1970-01-01'' ''36000000'' ctor" "\<not> availableAt ''1970-01-01'' ''36900000'' ctor"
  "\<not> availableAt ''1970-01-01'' ''37800000'' ctor"
  by (simp_all add: availableAt_def ann_def bob_def ctor_def)

text \<open>
  The amended claim C10 on the example poll with Ann selected: the map counts 1, 1 and 0
  available over a total of 4, so the slot at 10:15 AM is no best slot, while its colour
  is that of 1 out of 1.
\<close>

theorem C10_selected_count_witness:
  "eventData (pollState [ann, bob, cy, dee] [(''Ann'', True)]) =
     Some (pollEvent [ann, bob, cy, dee]) \<and>
   hasSelectedUsers (pollState [ann, bob, cy, dee] [(''Ann'', True)]) \<and>
   list_all (\<lambda>r. name r \<notin> set objectPrototypeKeys) [ann, bob, cy, dee] \<and>
   viewMode (pollState [ann, bob, cy, dee] [(''Ann'', True)]) = everyone \<and>
   filter (\<lambda>r. map_of [(''Ann'', True)] (name r) = Some True) [ann, bob, cy, dee] = [ann] \<and>
   map saAvailable (availabilityMap utcLuxon ''now''
     (pollState [ann, bob, cy, dee] [(''Ann'', True)]) \<lparr>year = 1970, month = 1, day = 1\<rparr>) =
     [1, 1, 0] \<and>
   map saTotal (availabilityMap utcLuxon ''now''
     (pollState [ann, bob, cy, dee] [(''Ann'', True)]) \<lparr>year = 1970, month = 1, day = 1\<rparr>) =
     [4, 4, 4] \<and>
   \<lparr>saTimestamp = 36900000, saTime = ''10:15 AM'', saAvailable = 1, saTotal = 4\<rparr>
     \<in> set (availabilityMap utcLuxon ''now''
           (pollState [ann, bob, cy, dee] [(''Ann'', True)])
           \<lparr>year = 1970, month = 1, day = 1\<rparr>) \<and>
   \<lparr>saTimestamp = 36900000, saTime = ''10:15 AM'', saAvailable = 1, saTotal = 4\<rparr>
     \<notin> set (bestSlots utcLuxon ''now''
           (pollState [ann, bob, cy, dee] [(''Ann'', True)])
           \<lparr>year = 1970, month = 1, day = 1\<rparr>) \<and>
   getTimeSlotColor ''now'' (pollState [ann, bob, cy, dee] [(''Ann'', True)])
     ''1970-01-01'' 36900000 = classFull \<and>
   selectedKeys (pollState [ann, bob, cy, dee] [(''Ann'', True)]) = [''Ann''] \<and>
   length (selectedKeys (pollState [ann, bob, cy, dee] [(''Ann'', True)])) = length [ann]"
proof -
  let ?st = "pollState [ann, bob, cy, dee] [(''Ann'', True)]"
  let ?ev = "pollEvent [ann, bob, cy, dee]"
  let ?d = "\<lparr>year = 1970, month = 1, day = 1\<rparr>"
  let ?sa = "\<lparr>saTimestamp = 36900000, saTime = ''10:15 AM'', saAvailable = 1, saTotal = 4\<rparr>"
  have ev: "eventData ?st = Some ?ev"
    by (simp only: pollState_fields)
  have sel: "hasSelectedUsers ?st"
    by (simp add: hasSelectedUsers_def pollState_fields)
  have mode: "viewMode ?st = everyone"
    by (simp only: pollState_fields)
  have plain: "list_all (\<lambda>r. name r \<notin> set objectPrototypeKeys) [ann, bob, cy, dee]"
    by (simp add: poll_names objectPrototypeKeys_def)
  then have plain': "\<forall>r \<in> set (responses ?ev). name r \<notin> set objectPrototypeKeys"
    by (simp only: pollState_fields list_all_iff)
  have chosen: "filter (\<lambda>r. map_of [(''Ann'', True)] (name r) = Some True) [ann, bob, cy, dee]
      = [ann]"
    by (simp add: poll_names)
  have keyd: "distinct (map fst (selectedUsers ?st))"
    by (simp add: pollState_fields)
  have wf: "distinct (map fst (selectedUsers ?st)) \<and> distinct (map name (responses ?ev)) \<and>
      set (selectedKeys ?st) \<subseteq> name ` set (responses ?ev)"
    by (simp add: pollState_fields poll_names selectedKeys_def isSelected_def)
  note inst = C10_selected_count_and_denominators [OF ev sel plain', of utcLuxon ?d
      "''1970-01-01''" 36900000 "''now''" ?sa, unfolded Let_def pollState_fields chosen
      poll_slots poll_date]
  note c1 = inst [THEN conjunct1]
  note c2 = inst [THEN conjunct2, THEN conjunct1]
  note c3 = inst [THEN conjunct2, THEN conjunct2, THEN conjunct1]
  note c4 = inst [THEN conjunct2, THEN conjunct2, THEN conjunct2, THEN conjunct1]
  note c5 = inst [THEN conjunct2, THEN conjunct2, THEN conjunct2, THEN conjunct2, THEN conjunct1]
  note c6 = inst [THEN conjunct2, THEN conjunct2, THEN conjunct2, THEN conjunct2, THEN conjunct2]
  have avail: "map saAvailable (availabilityMap utcLuxon ''now'' ?st ?d) = [1, 1, 0]"
    unfolding c1 by (simp add: slot_keys poll_available)
  have total: "map saTotal (availabilityMap utcLuxon ''now'' ?st ?d) = [4, 4, 4]"
    unfolding c2 by simp
  have inMap: "?sa \<in> set (availabilityMap utcLuxon ''now'' ?st ?d)"
    by (simp add: poll_map slot_keys poll_counts poll_counts_more)
  have notBest: "?sa \<notin> set (bestSlots utcLuxon ''now'' ?st ?d)"
    unfolding c3 by simp
  have keys: "selectedKeys ?st = [''Ann'']"
    using c5 keyd by (simp add: pollState_fields)
  have color: "getTimeSlotColor ''now'' ?st ''1970-01-01'' 36900000 = classFull"
    using c4 mode by (simp add: keys slot_keys poll_available)
  have size: "length (selectedKeys ?st) = length [ann]"
    using c6 wf by (simp only: pollState_fields)
  from ev sel plain mode chosen avail total inMap notBest color keys size show ?thesis
    by (intro conjI)
qed

text \<open>
  Claim C10 as stated fails in two places. With Ann selected and a response named
  \<^verbatim>\<open>constructor\<close>, the count at 10:00 AM is 2, though only Ann is selected. With Ann and
  a name without a response selected, the selected subset is Ann alone, but the colour at
  10:00 AM is that of 1 out of 2, not of 1 out of 1.
\<close>

theorem C10_counterexample:
  "hasSelectedUsers (pollState [ann, ctor] [(''Ann'', True)]) \<and>
   filter (\<lambda>r. map_of [(''Ann'', True)] (name r) = Some True) [ann, ctor] = [ann] \<and>
   length (filter (availableAt ''1970-01-01'' ''36000000'') [ann]) = 1 \<and>
   map saAvailable (availabilityMap utcLuxon ''now''
     (pollState [ann, ctor] [(''Ann'', True)]) \<lparr>year = 1970, month = 1, day = 1\<rparr>) =
     [2, 1, 0] \<and>
   hasSelectedUsers (pollState [ann, bob] [(''Ann'', True), (''Zed'', True)]) \<and>
   filter (\<lambda>r. map_of [(''Ann'', True), (''Zed'', True)] (name r) = Some True) [ann, bob] =
     [ann] \<and>
   getTimeSlotColor ''now'' (pollState [ann, bob] [(''Ann'', True), (''Zed'', True)])
     ''1970-01-01'' 36000000 = classMedium \<and>
   percentageColor (length (filter (availableAt ''1970-01-01'' ''36000000'') [ann]))
     (length [ann]) = classFull \<and>
   classMedium \<noteq> classFull"
proof -
  let ?d = "\<lparr>year = 1970, month = 1, day = 1\<rparr>"
  have s1: "hasSelectedUsers (pollState [ann, ctor] [(''Ann'', True)])"
    by (simp add: hasSelectedUsers_def pollState_fields)
  have f1: "filter (\<lambda>r. map_of [(''Ann'', True)] (name r) = Some True) [ann, ctor] = [ann]"
    by (simp add: poll_names)
  have one: "length (filter (availableAt ''1970-01-01'' ''36000000'') [ann]) = 1"
    by (simp add: poll_available)
  have counts: "length (getAvailabilityDetails ''now'' (pollState [ann, ctor] [(''Ann'', True)])
        ''1970-01-01'' ''36000000'') = 2"
    "length (getAvailabilityDetails ''now'' (pollState [ann, ctor] [(''Ann'', True)])
        ''1970-01-01'' ''36900000'') = 1"
    "length (getAvailabilityDetails ''now'' (pollState [ann, ctor] [(''Ann'', True)])
        ''1970-01-01'' ''37800000'') = 0"
    by (simp_all add: getAvailabilityDetails_def pollState_fields filteredResponses_def
        hasSelectedUsers_def isSelected_def objectPrototypeKeys_def poll_names poll_available)
  have avail: "map saAvailable (availabilityMap utcLuxon ''now''
      (pollState [ann, ctor] [(''Ann'', True)]) ?d) = [2, 1, 0]"
    by (simp add: poll_map slot_keys counts)
  have s2: "hasSelectedUsers (pollState [ann, bob] [(''Ann'', True), (''Zed'', True)])"
    by (simp add: hasSelectedUsers_def pollState_fields)
  have f2: "filter (\<lambda>r. map_of [(''Ann'', True), (''Zed'', True)] (name r) = Some True)
      [ann, bob] = [ann]"
    by (simp add: poll_names)
  have zed: "length (getAvailabilityDetails ''now''
      (pollState [ann, bob] [(''Ann'', True), (''Zed'', True)]) ''1970-01-01'' ''36000000'') = 1"
    by (simp add: getAvailabilityDetails_def pollState_fields filteredResponses_def
        hasSelectedUsers_def isSelected_def objectPrototypeKeys_def poll_names poll_available)
  have keys: "length (selectedKeys (pollState [ann, bob] [(''Ann'', True), (''Zed'', True)])) = 2"
    by (simp add: selectedKeys_def isSelected_def pollState_fields)
  have half: "percentageColor 1 2 = classMedium"
    by (rule percentageColor_cases(4)) simp_all
  have "getTimeSlotColor ''now'' (pollState [ann, bob] [(''Ann'', True), (''Zed'', True)])
      ''1970-01-01'' 36000000 = percentageColor 1 2"
    by (simp add: getTimeSlotColor_def pollState_fields s2 slot_keys zed keys
        del: One_nat_def)
  then have color: "getTimeSlotColor ''now''
      (pollState [ann, bob] [(''Ann'', True), (''Zed'', True)]) ''1970-01-01'' 36000000 =
      classMedium"
    by (simp only: half)
  have full: "percentageColor (length (filter (availableAt ''1970-01-01'' ''36000000'') [ann]))
      (length [ann]) = classFull"
    unfolding one by (simp add: percentageColor_def)
  have ne: "classMedium \<noteq> classFull"
    using classes_distinct by auto
  from s1 f1 one avail s2 f2 color full ne show ?thesis
    by (intro conjI)
qed

end
